theory Spec2Isabelle
  imports Main "HOL-Library.Word"
begin

section \<open>The type library: kinds, dynamic values and \<open>Load\<close>\<close>

text \<open>
  The Go sources pass values of type \<open>interface{}\<close>. A dynamic value is modelled by
  the datatype \<open>val\<close>: the nil interface, a bool, an integer of one of the ten native
  integer types, a float of either width (its IEEE bits), a string, a \<open>time.Time\<close>
  (nanoseconds), a slice, an array, a \<open>map[string]interface{}\<close> (an association list
  in iteration order) and, as \<open>VOther\<close>, a value of any other type (struct, pointer,
  channel, map with another key type). Values of named string, slice or array types are not
  modelled.
\<close>

datatype Kind = NullType | BooleanType | IntegerType | NumberType | StringType
  | ArrayType | ObjectType

datatype ikind = GoInt | GoUint | GoInt8 | GoUint8 | GoInt16 | GoUint16 | GoInt32 | GoUint32
  | GoInt64 | GoUint64

datatype val = VNil | VBool bool | VInteger ikind int | VFloat32 "32 word"
  | VFloat64 "64 word" | VString string | VTime int | VSlice "val list"
  | VArray "val list" | VMap "(string \<times> val) list" | VOther string

text \<open>
  \<open>IncompatibleValue{value, to, extra}\<close>. The \<open>extra\<close> string is kept structured
  where the source formats another error or an index into it.
\<close>

datatype error = IncompatibleValue (err_value: val) (err_to: string) (err_extra: detail)
  | ValidationError string
and detail = Msg string
  | FailedToDecodeJSON string
  | CannotLoadIndex nat error
  | CouldNotLoadMember string error

text \<open>The pair \<open>(interface{}, error)\<close> a \<open>Load\<close> returns, or a run-time panic.\<close>

datatype res = Panic | Ret val "error option"

type_synonym Validation = "string \<Rightarrow> val \<Rightarrow> error option"

datatype DataType = Primitive Kind | Array DataType | Object "(string \<times> Member) list"
and Member = Member (Type: DataType) (Description: string)
  (Validations: "Validation list") (DefaultValue: val)

text \<open>
  The functions of Go's standard library that \<open>Load\<close> calls are parameters:
  \<open>strconv.ParseBool\<close>, \<open>strconv.ParseInt(v, 10, 0)\<close>, \<open>strconv.ParseFloat(v, 64)\<close>,
  \<open>Time.Format(time.RFC3339)\<close>, \<open>json.Unmarshal\<close> into a \<open>[]interface{}\<close> and into a
  \<open>map[string]interface{}\<close> (\<open>Inl\<close> carries the error text), and the conversions to
  \<open>float64\<close>.
\<close>

record golib =
  ParseBool :: "string \<Rightarrow> string + bool"
  ParseInt :: "string \<Rightarrow> string + int"
  ParseFloat :: "string \<Rightarrow> string + 64 word"
  FormatRFC3339 :: "int \<Rightarrow> string"
  UnmarshalArray :: "string \<Rightarrow> string + val list"
  UnmarshalObject :: "string \<Rightarrow> string + (string \<times> val) list"
  Float64OfInt :: "int \<Rightarrow> 64 word"
  Float64OfFloat32 :: "32 word \<Rightarrow> 64 word"

text \<open>The conversion \<open>int(v)\<close> to a 64-bit \<open>int\<close>: it wraps.\<close>

definition to_int :: "int \<Rightarrow> int" where
  "to_int n = sint (word_of_int n :: 64 word)"

text \<open>\<open>Primitive.Name\<close>: panics (\<open>None\<close>) on a kind that is not a basic type.\<close>

fun Primitive_Name :: "Kind \<Rightarrow> string option" where
  "Primitive_Name NullType = Some ''null''"
| "Primitive_Name BooleanType = Some ''boolean''"
| "Primitive_Name IntegerType = Some ''integer''"
| "Primitive_Name NumberType = Some ''number''"
| "Primitive_Name StringType = Some ''string''"
| "Primitive_Name ArrayType = None"
| "Primitive_Name ObjectType = None"

text \<open>
  The type switches of \<open>Primitive.Load\<close>: \<open>Inr\<close> is a value returned from inside the
  switch, \<open>Inl\<close> the \<open>extra\<close> string with which control reaches the final return.
  In the multi-type integer case of the Boolean branch the variable keeps the type
  \<open>interface{}\<close>, so \<open>value == 0\<close> compares it with the \<open>int\<close> constant 0.
\<close>

fun load_boolean :: "golib \<Rightarrow> val \<Rightarrow> string + val" where
  "load_boolean L (VBool b) = Inr (VBool b)"
| "load_boolean L (VString v) =
     (case ParseBool L v of Inr r \<Rightarrow> Inr (VBool r) | Inl e \<Rightarrow> Inl e)"
| "load_boolean L (VInteger k n) =
     (if VInteger k n = VInteger GoInt 0 then Inr (VBool False)
      else if VInteger k n = VInteger GoInt 1 then Inr (VBool True)
      else Inl ''integer value must be 0 or 1'')"
| "load_boolean L v = Inl []"

fun load_integer :: "golib \<Rightarrow> val \<Rightarrow> string + val" where
  "load_integer L (VInteger k n) = Inr (VInteger GoInt (to_int n))"
| "load_integer L (VString v) =
     (case ParseInt L v of Inr r \<Rightarrow> Inr (VInteger GoInt (to_int r)) | Inl e \<Rightarrow> Inl e)"
| "load_integer L v = Inl []"

fun load_number :: "golib \<Rightarrow> val \<Rightarrow> string + val" where
  "load_number L (VInteger k n) = Inr (VFloat64 (Float64OfInt L n))"
| "load_number L (VFloat32 f) = Inr (VFloat64 (Float64OfFloat32 L f))"
| "load_number L (VFloat64 f) = Inr (VFloat64 f)"
| "load_number L (VString v) =
     (case ParseFloat L v of Inr r \<Rightarrow> Inr (VFloat64 r) | Inl e \<Rightarrow> Inl e)"
| "load_number L v = Inl []"

fun load_string :: "golib \<Rightarrow> val \<Rightarrow> string + val" where
  "load_string L (VTime t) = Inr (VString (FormatRFC3339 L t))"
| "load_string L (VString v) = Inr (VString v)"
| "load_string L v = Inl []"

fun load_switch :: "golib \<Rightarrow> Kind \<Rightarrow> val \<Rightarrow> string + val" where
  "load_switch L BooleanType v = load_boolean L v"
| "load_switch L IntegerType v = load_integer L v"
| "load_switch L NumberType v = load_number L v"
| "load_switch L StringType v = load_string L v"
| "load_switch L k v = Inl []"

definition Primitive_Load :: "golib \<Rightarrow> Kind \<Rightarrow> val \<Rightarrow> res" where
  "Primitive_Load L b v =
     (if v = VNil then Ret VNil None
      else case load_switch L b v of
        Inr r \<Rightarrow> Ret r None
      | Inl extra \<Rightarrow>
          (case Primitive_Name b of
             None \<Rightarrow> Panic
           | Some nm \<Rightarrow> Ret VNil (Some (IncompatibleValue v nm (Msg extra)))))"

text \<open>\<open>coerced[n] = val\<close> on the result map.\<close>

fun map_set :: "(string \<times> val) list \<Rightarrow> string \<Rightarrow> val \<Rightarrow> (string \<times> val) list" where
  "map_set [] n v = [(n, v)]"
| "map_set ((k, w) # m) n v = (if k = n then (k, v) # m else (k, w) # map_set m n v)"

text \<open>\<open>val, _ := m[n]\<close>: nil when the key is absent.\<close>

definition map_get :: "(string \<times> val) list \<Rightarrow> string \<Rightarrow> val" where
  "map_get m n = (case map_of m n of None \<Rightarrow> VNil | Some v \<Rightarrow> v)"

text \<open>The first validation that fails, as the loop of \<open>Member.Load\<close> returns it.\<close>

fun first_failure :: "Validation list \<Rightarrow> string \<Rightarrow> val \<Rightarrow> error option" where
  "first_failure [] n v = None"
| "first_failure (f # fs) n v =
     (case f n v of Some e \<Rightarrow> Some e | None \<Rightarrow> first_failure fs n v)"

text \<open>All the failures, as the validation loop inside \<open>Object.Load\<close> appends them.\<close>

fun all_failures :: "Validation list \<Rightarrow> string \<Rightarrow> val \<Rightarrow> error list" where
  "all_failures [] n v = []"
| "all_failures (f # fs) n v =
     (case f n v of Some e \<Rightarrow> e # all_failures fs n v | None \<Rightarrow> all_failures fs n v)"

text \<open>
  The first part of \<open>Array.Load\<close>: the slice \<open>arr\<close> to load (\<open>Inr\<close>), or the
  way the function ends before its loop (\<open>Inl\<close>). \<open>reflect.TypeOf(nil)\<close> is the nil
  \<open>Type\<close>, and calling \<open>Kind()\<close> on it panics.
\<close>

definition array_input :: "golib \<Rightarrow> val \<Rightarrow> res + val list" where
  "array_input L value =
     (case value of
        VNil \<Rightarrow> Inl Panic
      | VString s \<Rightarrow>
          (case UnmarshalArray L s of
             Inl e \<Rightarrow>
               Inl (Ret VNil (Some (IncompatibleValue value ''Array'' (FailedToDecodeJSON e))))
           | Inr arr \<Rightarrow> Inr arr)
      | VSlice xs \<Rightarrow> Inr xs
      | VArray xs \<Rightarrow> Inr xs
      | _ \<Rightarrow> Inl (Ret VNil (Some (IncompatibleValue value ''Array''
                 (Msg ''value must be an array or a slice'')))))"

text \<open>The first part of \<open>Object.Load\<close>: the map \<open>m\<close>, or the early return.\<close>

definition object_input :: "golib \<Rightarrow> val \<Rightarrow> res + (string \<times> val) list" where
  "object_input L value =
     (case value of
        VString v \<Rightarrow>
          (case UnmarshalObject L v of
             Inl e \<Rightarrow> Inl (Ret VNil (Some (IncompatibleValue value ''Object''
                        (Msg ''string is not a JSON object''))))
           | Inr m \<Rightarrow> Inr m)
      | VMap m \<Rightarrow> Inr m
      | _ \<Rightarrow> Inl (Ret VNil (Some (IncompatibleValue value ''Object'' (Msg [])))))"

text \<open>
  The body of \<open>Member.Load\<close> after \<open>m.Type.Load(value)\<close> has returned \<open>r\<close>: an error
  is passed on, a value goes through the member's validations.
\<close>

definition run_validations :: "Validation list \<Rightarrow> string \<Rightarrow> res \<Rightarrow> res" where
  "run_validations vs name r =
     (case r of
        Panic \<Rightarrow> Panic
      | Ret x (Some err) \<Rightarrow> Ret VNil (Some err)
      | Ret x None \<Rightarrow>
          (case first_failure vs name x of
             Some err \<Rightarrow> Ret VNil (Some err)
           | None \<Rightarrow> Ret x None))"

text \<open>
  \<open>Load\<close> of the three data types and its two loops: \<open>Array_loop\<close> is the element loop
  of \<open>Array.Load\<close> (original value, rest of \<open>arr\<close>, index, \<open>res\<close>), \<open>Object_loop\<close>
  the member loop of \<open>Object.Load\<close> (original value, the map \<open>m\<close>, members still to
  visit in iteration order, \<open>coerced\<close>, \<open>errors\<close>). The call \<open>member.Load(n, val)\<close> is
  \<open>run_validations\<close> on the result of \<open>Load\<close> at the member's type.
\<close>

fun Load :: "golib \<Rightarrow> DataType \<Rightarrow> val \<Rightarrow> res"
and Array_loop :: "golib \<Rightarrow> DataType \<Rightarrow> val \<Rightarrow> val list \<Rightarrow> nat \<Rightarrow> val list \<Rightarrow> res"
and Object_loop :: "golib \<Rightarrow> val \<Rightarrow> (string \<times> val) list \<Rightarrow> (string \<times> Member) list
  \<Rightarrow> (string \<times> val) list \<Rightarrow> error list \<Rightarrow> res"
where
  "Load L (Primitive b) value = Primitive_Load L b value"
| "Load L (Array t) value =
     (case array_input L value of
        Inl r \<Rightarrow> r
      | Inr arr \<Rightarrow> Array_loop L t value arr 0 [])"
| "Load L (Object ms) value =
     (case object_input L value of
        Inl r \<Rightarrow> r
      | Inr m \<Rightarrow> Object_loop L value m ms [] [])"
| "Array_loop L t value [] i acc = Ret (VSlice acc) None"
| "Array_loop L t value (x # xs) i acc =
     (case Load L t x of
        Panic \<Rightarrow> Panic
      | Ret ev (Some err) \<Rightarrow>
          Ret VNil (Some (IncompatibleValue value ''Array'' (CannotLoadIndex i err)))
      | Ret ev None \<Rightarrow> Array_loop L t value xs (Suc i) (acc @ [ev]))"
| "Object_loop L value m [] coerced errors =
     (case errors of
        [] \<Rightarrow> Ret (VMap coerced) None
      | e # es \<Rightarrow> Ret VNil (Some e))"
| "Object_loop L value m ((n, Member t d vs dv) # ms) coerced errors =
     (if map_get m n = VNil then
        Object_loop L value m ms
          (map_set coerced n (if dv \<noteq> VNil then dv else VNil))
          errors
      else
        (case run_validations vs n (Load L t (map_get m n)) of
           Panic \<Rightarrow> Panic
         | Ret r (Some err) \<Rightarrow>
             Object_loop L value m ms coerced
               (errors @ [IncompatibleValue value ''Object'' (CouldNotLoadMember n err)])
         | Ret r None \<Rightarrow>
             Object_loop L value m ms (map_set coerced n r)
               (errors @ all_failures vs n r)))"

definition Member_Load :: "golib \<Rightarrow> Member \<Rightarrow> string \<Rightarrow> val \<Rightarrow> res" where
  "Member_Load L m name value = run_validations (Validations m) name (Load L (Type m) value)"

text \<open>
  A standard library in which every parse and every decoding fails. It fixes the library
  parameter where a result is evaluated on an input that reaches none of these functions,
  or only their failure.
\<close>

definition nolib :: golib where
  "nolib = \<lparr> ParseBool = (\<lambda>s. Inl ''invalid syntax''),
             ParseInt = (\<lambda>s. Inl ''invalid syntax''),
             ParseFloat = (\<lambda>s. Inl ''invalid syntax''),
             FormatRFC3339 = (\<lambda>t. []),
             UnmarshalArray = (\<lambda>s. Inl ''invalid character''),
             UnmarshalObject = (\<lambda>s. Inl ''invalid character''),
             Float64OfInt = (\<lambda>n. 0),
             Float64OfFloat32 = (\<lambda>f. 0) \<rparr>"

subsection \<open>What the claims about \<open>Load\<close> speak of\<close>

text \<open>
  The inputs that are none of the ones \<open>Primitive.Load\<close> is said to accept for the
  Boolean, Integer and String kinds, nil apart. For the Boolean kind an integer is such an
  input when its value is neither 0 nor 1, whatever its width.
\<close>

fun other_input :: "Kind \<Rightarrow> val \<Rightarrow> bool" where
  "other_input k VNil = False"
| "other_input BooleanType (VBool b) = False"
| "other_input BooleanType (VString s) = False"
| "other_input BooleanType (VInteger w n) = (n \<noteq> 0 \<and> n \<noteq> 1)"
| "other_input IntegerType (VInteger w n) = False"
| "other_input IntegerType (VString s) = False"
| "other_input StringType (VString s) = False"
| "other_input StringType (VTime t) = False"
| "other_input k v = (k = BooleanType \<or> k = IntegerType \<or> k = StringType)"

text \<open>
  What the member loop of \<open>Object.Load\<close> does with one declared member: the key is
  absent or nil and the default stands in (\<open>Absent\<close>), the value loads (\<open>Loaded\<close>), it
  fails to load or to validate (\<open>Failed\<close>), or the load panics (\<open>Crashed\<close>).
\<close>

datatype member_outcome = Absent val | Loaded val | Failed error | Crashed

definition load_member :: "golib \<Rightarrow> (string \<times> val) list \<Rightarrow> string \<times> Member \<Rightarrow> member_outcome" where
  "load_member L m p =
     (if map_get m (fst p) = VNil then Absent (DefaultValue (snd p))
      else case Member_Load L (snd p) (fst p) (map_get m (fst p)) of
        Panic \<Rightarrow> Crashed
      | Ret r (Some e) \<Rightarrow> Failed e
      | Ret r None \<Rightarrow> Loaded r)"

fun has_failed :: "member_outcome \<Rightarrow> bool" where
  "has_failed (Failed e) = True"
| "has_failed out = False"

fun member_value :: "member_outcome \<Rightarrow> val" where
  "member_value (Absent v) = v"
| "member_value (Loaded v) = v"
| "member_value out = VNil"

text \<open>
  The errors of the member loop in iteration order, and the map it builds, written as two
  separate passes over the declared members.
\<close>

fun member_errors :: "golib \<Rightarrow> val \<Rightarrow> (string \<times> val) list \<Rightarrow> (string \<times> Member) list
  \<Rightarrow> error list" where
  "member_errors L v0 m [] = []"
| "member_errors L v0 m (p # ps) =
     (case load_member L m p of
        Failed e \<Rightarrow> IncompatibleValue v0 ''Object'' (CouldNotLoadMember (fst p) e)
                     # member_errors L v0 m ps
      | _ \<Rightarrow> member_errors L v0 m ps)"

fun coerce_members :: "golib \<Rightarrow> (string \<times> val) list \<Rightarrow> (string \<times> Member) list
  \<Rightarrow> (string \<times> val) list \<Rightarrow> (string \<times> val) list" where
  "coerce_members L m [] c = c"
| "coerce_members L m (p # ps) c =
     coerce_members L m ps
       (case load_member L m p of
          Absent v \<Rightarrow> map_set c (fst p) v
        | Loaded v \<Rightarrow> map_set c (fst p) v
        | _ \<Rightarrow> c)"

text \<open>An object type with three members and a map to load into it.\<close>

definition sample_object :: "(string \<times> Member) list" where
  "sample_object =
     [(''id'', Member (Primitive IntegerType) [] [] VNil),
      (''ok'', Member (Primitive BooleanType) [] [] (VBool True)),
      (''tags'', Member (Array (Primitive StringType)) [] [] VNil)]"

definition sample_map :: "(string \<times> val) list" where
  "sample_map = [(''id'', VInteger GoUint8 7), (''ok'', VFloat64 0), (''tags'', VInteger GoInt 3)]"


section \<open>The design tree\<close>

text \<open>
  The definitions that the DSL builds and that \<open>Validate\<close> and the finalize functions
  walk. The struct declarations are not among the sources at hand; the records below hold the
  fields that the functions read and write. A Go map is an association list, in the order
  in which \<open>range\<close> visits it. An attribute's type may be nil (\<open>None\<close>). A user type or a
  media type used as a type is a reference by name; nil entries of an object are not
  modelled, and the embedded \<open>*AttributeDefinition\<close> of a user type or media type is
  taken to be non-nil.
\<close>

datatype KindD = NullKind | BooleanKind | IntegerKind | NumberKind | StringKind
  | ArrayKind | ObjectKind | UserTypeKind | MediaTypeKind

datatype ValidationDefinition =
    RequiredValidationDefinition (Names: "string list")
  | OtherValidationDefinition string

datatype DataTypeD = PrimitiveD KindD
  | ArrayD AttributeDefinition
  | ObjectD "(string \<times> AttributeDefinition) list"
  | UserTypeD string
  | MediaTypeD string
and AttributeDefinition = AttributeDefinition
  (Attr_Type: "DataTypeD option")
  (Attr_Description: string)
  (Attr_Validations: "ValidationDefinition list")
  (Attr_DefaultValue: val)
  (Attr_View: string)

text \<open>\<open>&AttributeDefinition{Type: t}\<close>: every other field has its zero value.\<close>

definition attribute_of_type :: "DataTypeD \<Rightarrow> AttributeDefinition" where
  "attribute_of_type t = AttributeDefinition (Some t) [] [] VNil []"

text \<open>\<open>fmt.Errorf(format, args...)\<close>: the format string of the source and its arguments.\<close>

datatype verror = Errorf string "farg list"
and farg = AStr string | AInt int | ANat nat | AErr verror

record RouteDefinition =
  Route_Verb :: string
  Route_Path :: string

record ResponseDefinition =
  Response_Name :: string
  Response_Status :: int
  Response_Description :: string
  Response_MediaType :: string
  Response_Headers :: "(string \<times> string) list"

record UserTypeDefinition =
  UT_AttributeDefinition :: AttributeDefinition
  UT_TypeName :: string
  UT_BaseType :: "DataTypeD option"
  UT_DSL :: "nat option"

record MediaTypeDefinition =
  MT_AttributeDefinition :: AttributeDefinition
  MT_TypeName :: string
  MT_BaseType :: "DataTypeD option"
  MT_DSL :: "nat option"
  MT_Identifier :: string
  MT_Views :: "(string \<times> AttributeDefinition) list"
  MT_Links :: "(string \<times> string) list"

record ActionDefinition =
  Action_Name :: string
  Action_Routes :: "RouteDefinition list"
  Action_Responses :: "(string \<times> ResponseDefinition) list"
  Action_Params :: "AttributeDefinition option"
  Action_Payload :: "AttributeDefinition option"
  Action_Headers :: "AttributeDefinition option"

record ResourceDefinition =
  Resource_Name :: string
  Resource_ParentName :: string
  Resource_CanonicalAction :: string
  Resource_BasePath :: string
  Resource_BaseParams :: "AttributeDefinition option"
  Resource_MediaType :: string
  Resource_Actions :: "(string \<times> ActionDefinition) list"
  Resource_Responses :: "(string \<times> ResponseDefinition) list"
  Resource_DSL :: "nat option"

record APIDefinition =
  API_DSL :: "nat option"
  API_Types :: "(string \<times> UserTypeDefinition) list"
  API_MediaTypes :: "(string \<times> MediaTypeDefinition) list"
  API_Resources :: "(string \<times> ResourceDefinition) list"
  API_Responses :: "(string \<times> ResponseDefinition) list"
  API_DefaultResponses :: "(string \<times> ResponseDefinition) list"

text \<open>
  What the sources at hand use and do not define is a parameter: \<open>mime.ParseMediaType\<close>
  (its error text, if any), \<open>ParamsRegex.FindAllStringSubmatch(path, -1)\<close> (every match
  with its submatches), \<open>Kind()\<close> and \<open>ToObject()\<close> of a user type or media type used as
  a type, and \<open>ExtractWildcards(r.FullPath())\<close> of a route of a resource, given by the
  resource's name.
\<close>

record env =
  ParseMediaType :: "string \<Rightarrow> string option"
  FindAllStringSubmatch :: "string \<Rightarrow> (string \<times> string list) list"
  RefKind :: "string \<Rightarrow> KindD"
  RefObject :: "string \<Rightarrow> (string \<times> AttributeDefinition) list option"
  Wildcards :: "string \<Rightarrow> RouteDefinition \<Rightarrow> string list"

fun Kind_of :: "env \<Rightarrow> DataTypeD \<Rightarrow> KindD" where
  "Kind_of E (PrimitiveD k) = k"
| "Kind_of E (ArrayD a) = ArrayKind"
| "Kind_of E (ObjectD ms) = ObjectKind"
| "Kind_of E (UserTypeD n) = RefKind E n"
| "Kind_of E (MediaTypeD n) = RefKind E n"

text \<open>
  Modelled from the spec: \<open>ToObject\<close> is not among the sources. It returns the object
  of an object type, the underlying object of a user type or media type, and nil otherwise.
\<close>

fun ToObject :: "env \<Rightarrow> DataTypeD \<Rightarrow> (string \<times> AttributeDefinition) list option" where
  "ToObject E (ObjectD ms) = Some ms"
| "ToObject E (UserTypeD n) = RefObject E n"
| "ToObject E (MediaTypeD n) = RefObject E n"
| "ToObject E t = None"

subsection \<open>\<open>Validate\<close>\<close>

text \<open>The loop over \<open>r.Names\<close> in \<open>AttributeDefinition.Validate\<close>.\<close>

fun check_names :: "string list \<Rightarrow> string list \<Rightarrow> verror option" where
  "check_names keys [] = None"
| "check_names keys (n # ns) =
     (if n \<in> set keys then check_names keys ns
      else Some (Errorf ''required field \"%s\" does not exist'' [AStr n]))"

text \<open>The loop over \<open>a.Validations\<close>; \<open>isObject\<close> and the keys of \<open>o\<close> are given.\<close>

fun check_validations :: "bool \<Rightarrow> string list \<Rightarrow> ValidationDefinition list \<Rightarrow> verror option" where
  "check_validations isObject keys [] = None"
| "check_validations isObject keys (RequiredValidationDefinition ns # vs) =
     (if \<not> isObject then Some (Errorf ''only objects may define a \"Required\" validation'' [])
      else case check_names keys ns of
        Some e \<Rightarrow> Some e
      | None \<Rightarrow> check_validations isObject keys vs)"
| "check_validations isObject keys (OtherValidationDefinition x # vs) =
     check_validations isObject keys vs"

text \<open>
  \<open>AttributeDefinition.Validate\<close>, and its loop over the attributes of an object. The type
  assertion \<open>a.Type.(Object)\<close> holds for an object type only.
\<close>

fun Attribute_Validate :: "AttributeDefinition \<Rightarrow> verror option"
and Attributes_Validate :: "(string \<times> AttributeDefinition) list \<Rightarrow> verror option" where
  "Attribute_Validate (AttributeDefinition (Some (ObjectD ms)) d vs dv vw) =
     (case check_validations True (map fst ms) vs of
        Some e \<Rightarrow> Some e
      | None \<Rightarrow> Attributes_Validate ms)"
| "Attribute_Validate (AttributeDefinition t d vs dv vw) = check_validations False [] vs"
| "Attributes_Validate [] = None"
| "Attributes_Validate ((n, att) # ms) =
     (case Attribute_Validate att of
        Some e \<Rightarrow> Some e
      | None \<Rightarrow> Attributes_Validate ms)"

text \<open>The media type that a type points to, when it is a \<open>*MediaTypeDefinition\<close>.\<close>

fun media_type_ref :: "DataTypeD option \<Rightarrow> string option" where
  "media_type_ref (Some (MediaTypeD n)) = Some n"
| "media_type_ref t = None"

definition views_of :: "(string \<times> MediaTypeDefinition) list \<Rightarrow> string \<Rightarrow> string list" where
  "views_of mts n = (case map_of mts n of None \<Rightarrow> [] | Some c \<Rightarrow> map fst (MT_Views c))"

text \<open>The loop of \<open>MediaTypeDefinition.Validate\<close> over the attributes of its object.\<close>

fun check_views :: "(string \<times> MediaTypeDefinition) list \<Rightarrow> string
  \<Rightarrow> (string \<times> AttributeDefinition) list \<Rightarrow> verror option" where
  "check_views mts ident [] = None"
| "check_views mts ident ((n, att) # ms) =
     (if Attr_View att \<noteq> [] then
        (case media_type_ref (Attr_Type att) of
           None \<Rightarrow> Some (Errorf
             ''attribute %s of media type %s defines a view for rendering but its type is not MediaTypeDefinition''
             [AStr n, AStr ident])
         | Some c \<Rightarrow>
             (if Attr_View att \<in> set (views_of mts c) then check_views mts ident ms
              else Some (Errorf ''attribute %s of media type %s uses unknown view %#v''
                     [AStr n, AStr ident, AStr (Attr_View att)])))
      else check_views mts ident ms)"

definition set_Attr_Type :: "DataTypeD option \<Rightarrow> AttributeDefinition \<Rightarrow> AttributeDefinition" where
  "set_Attr_Type t a =
     AttributeDefinition t (Attr_Description a) (Attr_Validations a) (Attr_DefaultValue a)
       (Attr_View a)"

text \<open>
  \<open>MediaTypeDefinition.Validate\<close> returns its error and leaves the media type as the
  second component: the method has a pointer receiver and assigns to \<open>m.Identifier\<close> and
  to \<open>m.Type\<close>.
\<close>

definition MediaType_Validate :: "env \<Rightarrow> (string \<times> MediaTypeDefinition) list
  \<Rightarrow> MediaTypeDefinition \<Rightarrow> verror option \<times> MediaTypeDefinition" where
  "MediaType_Validate E mts m =
     (if MT_TypeName m = [] then (Some (Errorf ''Media type must have a name'' []), m)
      else case (if MT_Identifier m \<noteq> [] then ParseMediaType E (MT_Identifier m) else None) of
        Some err \<Rightarrow> (Some (Errorf ''invalid media type identifier: %s'' [AStr err]), m)
      | None \<Rightarrow>
          (let m1 = (if MT_Identifier m \<noteq> [] then m else m\<lparr>MT_Identifier := ''plain/text''\<rparr>);
               m2 = (case Attr_Type (MT_AttributeDefinition m1) of
                       None \<Rightarrow> m1\<lparr>MT_AttributeDefinition :=
                         set_Attr_Type (Some (PrimitiveD StringKind)) (MT_AttributeDefinition m1)\<rparr>
                     | Some t \<Rightarrow> m1);
               t = (case Attr_Type (MT_AttributeDefinition m1) of
                      None \<Rightarrow> PrimitiveD StringKind
                    | Some t \<Rightarrow> t)
           in case ToObject E t of
                None \<Rightarrow> (None, m2)
              | Some ob \<Rightarrow> (check_views mts (MT_Identifier m2) ob, m2)))"

text \<open>\<open>Design.MediaTypes[name] = m\<close> for the media type that a pointer names.\<close>

fun store :: "(string \<times> 'a) list \<Rightarrow> string \<Rightarrow> 'a \<Rightarrow> (string \<times> 'a) list" where
  "store [] n v = [(n, v)]"
| "store ((k, w) # m) n v = (if k = n then (k, v) # m else (k, w) # store m n v)"

text \<open>
  \<open>if mt, ok := Design.MediaTypes[name]; ok { if err := mt.Validate(); ... }\<close>, shared
  by the response and the resource: the media types are threaded through.
\<close>

definition validate_media_type_named :: "env \<Rightarrow> (string \<times> MediaTypeDefinition) list \<Rightarrow> string
  \<Rightarrow> verror option \<times> (string \<times> MediaTypeDefinition) list" where
  "validate_media_type_named E mts n =
     (if n = [] then (None, mts)
      else case map_of mts n of
        None \<Rightarrow> (None, mts)
      | Some mt \<Rightarrow>
          (case MediaType_Validate E mts mt of (err, mt') \<Rightarrow> (err, store mts n mt')))"

definition Response_Validate :: "env \<Rightarrow> (string \<times> MediaTypeDefinition) list
  \<Rightarrow> ResponseDefinition \<Rightarrow> verror option \<times> (string \<times> MediaTypeDefinition) list" where
  "Response_Validate E mts r =
     (if Response_Status r = 0 then (Some (Errorf ''response status not defined'' []), mts)
      else validate_media_type_named E mts (Response_MediaType r))"

text \<open>The loop of \<open>ValidateParams\<close> over the parameters.\<close>

fun check_params :: "env \<Rightarrow> string \<Rightarrow> (string \<times> AttributeDefinition) list \<Rightarrow> verror option" where
  "check_params E a [] = None"
| "check_params E a ((n, p) # ps) =
     (if n = [] then Some (Errorf ''%s has parameter with no name'' [AStr a])
      else case Attr_Type p of
        None \<Rightarrow> Some (Errorf ''type of parameter %s of action %s cannot be nil'' [AStr n, AStr a])
      | Some t \<Rightarrow>
          (if Kind_of E t = ObjectKind then
             Some (Errorf
               ''parameter %s of action %s cannot be an object, only action payloads may be of type object''
               [AStr n, AStr a])
           else case Attribute_Validate p of
             Some err \<Rightarrow> Some (Errorf ''invalid definition for parameter %s of action %s: %s''
                           [AStr n, AStr a, AErr err])
           | None \<Rightarrow> check_params E a ps))"

fun object_of :: "DataTypeD option \<Rightarrow> (string \<times> AttributeDefinition) list option" where
  "object_of (Some (ObjectD ms)) = Some ms"
| "object_of t = None"

definition ValidateParams :: "env \<Rightarrow> ActionDefinition \<Rightarrow> verror option" where
  "ValidateParams E a =
     (case Action_Params a of
        None \<Rightarrow> None
      | Some ps \<Rightarrow>
          (case object_of (Attr_Type ps) of
             None \<Rightarrow> Some (Errorf ''\"Params\" field of action \"%s\" is not an object''
                        [AStr (Action_Name a)])
           | Some params \<Rightarrow> check_params E (Action_Name a) params))"

text \<open>
  The loop of \<open>ActionDefinition.Validate\<close> over the responses: \<open>rs\<close> are all of them,
  for the inner loop, the last argument those still to visit.
\<close>

fun check_responses :: "env \<Rightarrow> (string \<times> ResponseDefinition) list
  \<Rightarrow> (string \<times> MediaTypeDefinition) list \<Rightarrow> (string \<times> ResponseDefinition) list
  \<Rightarrow> verror option \<times> (string \<times> MediaTypeDefinition) list" where
  "check_responses E rs mts [] = (None, mts)"
| "check_responses E rs mts ((i, r) # rest) =
     (if list_ex (\<lambda>(j, r2). i \<noteq> j \<and> Response_Status r = Response_Status r2) rs then
        (Some (Errorf ''Multiple response definitions with status code %d''
                 [AInt (Response_Status r)]), mts)
      else case Response_Validate E mts r of
        (Some err, mts') \<Rightarrow>
          (if Response_Status r = 0
           then (Some (Errorf ''invalid response definition: %s'' [AErr err]), mts')
           else (Some (Errorf ''invalid %d response definition: %s''
                         [AInt (Response_Status r), AErr err]), mts'))
      | (None, mts') \<Rightarrow> check_responses E rs mts' rest)"

definition Action_Validate :: "env \<Rightarrow> (string \<times> MediaTypeDefinition) list \<Rightarrow> ActionDefinition
  \<Rightarrow> verror option \<times> (string \<times> MediaTypeDefinition) list" where
  "Action_Validate E mts a =
     (if Action_Name a = [] then (Some (Errorf ''Action name cannot be empty'' []), mts)
      else if Action_Routes a = [] then
        (Some (Errorf ''No route defined for action %s'' [AStr (Action_Name a)]), mts)
      else case check_responses E (Action_Responses a) mts (Action_Responses a) of
        (Some err, mts') \<Rightarrow> (Some err, mts')
      | (None, mts') \<Rightarrow>
          (case ValidateParams E a of
             Some err \<Rightarrow> (Some err, mts')
           | None \<Rightarrow>
               (case Action_Payload a of
                  None \<Rightarrow> (None, mts')
                | Some p \<Rightarrow>
                    (case Attribute_Validate p of
                       Some err \<Rightarrow>
                         (Some (Errorf ''invalid payload definition for action \"%s\": %s''
                                  [AStr (Action_Name a), AErr err]), mts')
                     | None \<Rightarrow> (None, mts')))))"


text \<open>The loop of \<open>ResourceDefinition.Validate\<close> over the actions, with its flag \<open>found\<close>.\<close>

fun check_actions :: "env \<Rightarrow> string \<Rightarrow> (string \<times> MediaTypeDefinition) list \<Rightarrow> bool
  \<Rightarrow> (string \<times> ActionDefinition) list
  \<Rightarrow> verror option \<times> (string \<times> MediaTypeDefinition) list \<times> bool" where
  "check_actions E canonical mts found [] = (None, mts, found)"
| "check_actions E canonical mts found ((k, a) # rest) =
     (case Action_Validate E mts a of
        (Some err, mts') \<Rightarrow>
          (Some (Errorf ''Action %s: %s'' [AStr (Action_Name a), AErr err]), mts',
           found \<or> Action_Name a = canonical)
      | (None, mts') \<Rightarrow>
          check_actions E canonical mts' (found \<or> Action_Name a = canonical) rest)"

text \<open>The loop over the variables of the base path.\<close>

fun check_vars :: "string \<Rightarrow> string list \<Rightarrow> string list \<Rightarrow> verror option" where
  "check_vars basePath keys [] = None"
| "check_vars basePath keys (v # vs) =
     (if v \<in> set keys then check_vars basePath keys vs
      else Some (Errorf
        ''Variable %s from base path %s does not match any parameter from BaseParams''
        [AStr v, AStr basePath]))"

fun join :: "string list \<Rightarrow> string \<Rightarrow> string" where
  "join [] sep = []"
| "join [x] sep = x"
| "join (x # xs) sep = x @ sep @ join xs sep"

definition check_base_params :: "env \<Rightarrow> ResourceDefinition \<Rightarrow> verror option" where
  "check_base_params E r =
     (case Resource_BaseParams r of
        None \<Rightarrow> None
      | Some bp \<Rightarrow>
          (case object_of (Attr_Type bp) of
             None \<Rightarrow> Some (Errorf ''Invalid type for BaseParams, must be an Object'' [])
           | Some baseParams \<Rightarrow>
               (case FindAllStringSubmatch E (Resource_BasePath r) of
                  m0 # (full, subs) # others \<Rightarrow>
                    (if length (full # subs) \<noteq> length baseParams then
                       Some (Errorf
                         ''BasePath defines parameters %s but BaseParams has %d elements''
                         [AStr (join [join (butlast (full # subs)) '', '', last (full # subs)]
                                  '' and ''),
                          ANat (length baseParams)])
                     else check_vars (Resource_BasePath r) (map fst baseParams) (full # subs))
                | _ \<Rightarrow>
                    (if length baseParams > 0 then
                       Some (Errorf ''BasePath does not use variables defines in BaseParams'' [])
                     else None))))"

text \<open>
  \<open>ResourceDefinition.Validate\<close>; \<open>names\<close> are the keys of \<open>Design.Resources\<close>.
\<close>

definition Resource_Validate :: "env \<Rightarrow> string list \<Rightarrow> (string \<times> MediaTypeDefinition) list
  \<Rightarrow> ResourceDefinition \<Rightarrow> verror option \<times> (string \<times> MediaTypeDefinition) list" where
  "Resource_Validate E names mts r =
     (if Resource_Name r = [] then (Some (Errorf ''Resource name cannot be empty'' []), mts)
      else case check_actions E (Resource_CanonicalAction r) mts False (Resource_Actions r) of
        (Some err, mts', found) \<Rightarrow> (Some err, mts')
      | (None, mts', found) \<Rightarrow>
          (if Resource_CanonicalAction r \<noteq> [] \<and> \<not> found then
             (Some (Errorf (''Unknown canonical action '' @ [CHR 0x27] @ ''%s'' @ [CHR 0x27])
                      [AStr (Resource_CanonicalAction r)]), mts')
           else case check_base_params E r of
             Some err \<Rightarrow> (Some err, mts')
           | None \<Rightarrow>
               (if Resource_ParentName r \<noteq> [] \<and> Resource_ParentName r \<notin> set names then
                  (Some (Errorf ''Parent resource named %#v not found''
                           [AStr (Resource_ParentName r)]), mts')
                else validate_media_type_named E mts' (Resource_MediaType r))))"

text \<open>The loop of \<open>APIDefinition.Validate\<close> over the resources.\<close>

fun check_resources :: "env \<Rightarrow> string list \<Rightarrow> (string \<times> MediaTypeDefinition) list
  \<Rightarrow> (string \<times> ResourceDefinition) list
  \<Rightarrow> verror option \<times> (string \<times> MediaTypeDefinition) list" where
  "check_resources E names mts [] = (None, mts)"
| "check_resources E names mts ((k, r) # rest) =
     (case Resource_Validate E names mts r of
        (Some err, mts') \<Rightarrow>
          (Some (Errorf ''Resource %s: %s'' [AStr (Resource_Name r), AErr err]), mts')
      | (None, mts') \<Rightarrow>
          (if Resource_ParentName r = [] then check_resources E names mts' rest
           else if Resource_ParentName r \<notin> set names then
             (Some (Errorf ''Resource %s: Unknown parent resource %s''
                      [AStr (Resource_Name r), AStr (Resource_ParentName r)]), mts')
           else check_resources E names mts' rest))"

text \<open>
  \<open>APIDefinition.Validate\<close> on the global \<open>Design\<close>: the error, and the design with the
  media types as the pass leaves them.
\<close>

definition API_Validate :: "env \<Rightarrow> APIDefinition \<Rightarrow> verror option \<times> APIDefinition" where
  "API_Validate E D =
     (case check_resources E (map fst (API_Resources D)) (API_MediaTypes D) (API_Resources D) of
        (err, mts') \<Rightarrow> (err, D\<lparr>API_MediaTypes := mts'\<rparr>))"

subsection \<open>The DSL engine\<close>

text \<open>
  The global state of package \<open>dsl\<close>: \<open>Design\<close>, \<open>Errors\<close> (a slice: nil is \<open>None\<close>) and
  \<open>ctxStack\<close>. A context is the definition that the stack entry points to. A DSL body is
  a function on this state; a nil \<open>func()\<close> is \<open>None\<close>.
\<close>

record Error =
  GoError :: string
  File :: string
  Line :: int

datatype DSLDefinition = CtxAPI | CtxType string | CtxMediaType string | CtxResource string
  | CtxOther string

record world =
  Design :: "APIDefinition option"
  Errors :: "Error list option"
  ctxStack :: "DSLDefinition list"

text \<open>\<open>len\<close> and \<open>append\<close> on the slice \<open>Errors\<close>.\<close>

definition len :: "'a list option \<Rightarrow> nat" where
  "len s = (case s of None \<Rightarrow> 0 | Some xs \<Rightarrow> length xs)"

definition append_slice :: "'a list option \<Rightarrow> 'a list \<Rightarrow> 'a list option" where
  "append_slice s ys =
     (case s of None \<Rightarrow> (if ys = [] then None else Some ys) | Some xs \<Rightarrow> Some (xs @ ys))"

text \<open>\<open>contextStack.current\<close>.\<close>

definition current :: "DSLDefinition list \<Rightarrow> DSLDefinition option" where
  "current s = (if length s = 0 then None else Some (s ! (length s - 1)))"

text \<open>
  \<open>executeDSL\<close>: the flag it returns and the state it leaves. Slicing an empty stack
  panics (\<open>None\<close>).
\<close>

definition executeDSL :: "(world \<Rightarrow> world) option \<Rightarrow> DSLDefinition \<Rightarrow> world
  \<Rightarrow> (bool \<times> world) option" where
  "executeDSL dsl ctx w =
     (case dsl of
        None \<Rightarrow> Some (True, w)
      | Some body \<Rightarrow>
          (let initCount = len (Errors w);
               w1 = w\<lparr>ctxStack := ctxStack w @ [ctx]\<rparr>;
               w2 = body w1
           in if length (ctxStack w2) = 0 then None
              else Some (len (Errors w2) \<le> initCount,
                         w2\<lparr>ctxStack := take (length (ctxStack w2) - 1) (ctxStack w2)\<rparr>)))"

subsection \<open>The finalize functions\<close>

text \<open>
  Modelled from the spec: \<open>AttributeDefinition.Inherit\<close> is not among the sources. It
  merges the attributes of the parent into the attribute, the attribute's own members
  winning on a name collision; it does nothing unless both are objects.
\<close>

definition Inherit :: "AttributeDefinition \<Rightarrow> AttributeDefinition \<Rightarrow> AttributeDefinition" where
  "Inherit a parent =
     (case (object_of (Attr_Type a), object_of (Attr_Type parent)) of
        (Some own, Some base) \<Rightarrow>
          set_Attr_Type
            (Some (ObjectD (own @ filter (\<lambda>(n, att). n \<notin> set (map fst own)) base))) a
      | _ \<Rightarrow> a)"

text \<open>
  Modelled from the spec: \<open>ResponseDefinition.Merge\<close> is not among the sources. It merges
  field by field, the other definition filling only the fields that the response left
  unset.
\<close>

definition Merge :: "ResponseDefinition \<Rightarrow> ResponseDefinition \<Rightarrow> ResponseDefinition" where
  "Merge r other =
     r\<lparr> Response_Name := (if Response_Name r = [] then Response_Name other else Response_Name r),
        Response_Status :=
          (if Response_Status r = 0 then Response_Status other else Response_Status r),
        Response_Description :=
          (if Response_Description r = [] then Response_Description other
           else Response_Description r),
        Response_MediaType :=
          (if Response_MediaType r = [] then Response_MediaType other
           else Response_MediaType r),
        Response_Headers :=
          (if Response_Headers r = [] then Response_Headers other else Response_Headers r) \<rparr>"

text \<open>
  \<open>finalizeMediaType\<close> and \<open>finalizeType\<close>: the base attribute \<open>bat\<close> that they pass to
  \<open>Inherit\<close> is the definition's own attribute.
\<close>

definition finalizeMediaType :: "MediaTypeDefinition \<Rightarrow> MediaTypeDefinition" where
  "finalizeMediaType mt =
     (if MT_BaseType mt \<noteq> None then
        (let bat = MT_AttributeDefinition mt
         in mt\<lparr>MT_AttributeDefinition := Inherit (MT_AttributeDefinition mt) bat\<rparr>)
      else mt)"

definition finalizeType :: "UserTypeDefinition \<Rightarrow> UserTypeDefinition" where
  "finalizeType ut =
     (if UT_BaseType ut \<noteq> None then
        (let bat = UT_AttributeDefinition ut
         in ut\<lparr>UT_AttributeDefinition := Inherit (UT_AttributeDefinition ut) bat\<rparr>)
      else ut)"

text \<open>\<open>if x, ok := m[name]; ok { resp.Merge(x) }\<close>.\<close>

definition merge_from :: "(string \<times> ResponseDefinition) list \<Rightarrow> string \<Rightarrow> ResponseDefinition
  \<Rightarrow> ResponseDefinition" where
  "merge_from m name resp = (case map_of m name of None \<Rightarrow> resp | Some x \<Rightarrow> Merge resp x)"

text \<open>
  Step 1 of the iterator in \<open>finalizeResource\<close>, on one response of the action: the
  responses of the parent resource, of the design, and the default responses.
\<close>

definition merge_response :: "APIDefinition \<Rightarrow> ResourceDefinition \<Rightarrow> string \<times> ResponseDefinition
  \<Rightarrow> string \<times> ResponseDefinition" where
  "merge_response D parent p =
     (fst p,
      merge_from (API_DefaultResponses D) (fst p)
        (merge_from (API_Responses D) (fst p)
           (merge_from (Resource_Responses parent) (fst p) (snd p))))"

text \<open>
  Step 2, the body of the loop over the wildcards of a route: \<open>None\<close> is a panic (a method
  call on a nil type, or an assignment to an entry of a nil map). When the parameters have a
  user type or media type, the new entry goes to the object of that type, which the action
  does not hold.
\<close>

definition add_wildcard :: "env \<Rightarrow> string \<Rightarrow> ActionDefinition \<Rightarrow> ActionDefinition option" where
  "add_wildcard E wc a =
     (case Action_Params a of
        None \<Rightarrow>
          Some (a\<lparr>Action_Params := Some (attribute_of_type
                  (ObjectD [(wc, attribute_of_type (PrimitiveD StringKind))]))\<rparr>)
      | Some ps \<Rightarrow>
          (case Attr_Type ps of
             None \<Rightarrow> None
           | Some t \<Rightarrow>
               (case ToObject E t of
                  None \<Rightarrow> None
                | Some ob \<Rightarrow>
                    (if wc \<in> set (map fst ob) then Some a
                     else case t of
                       ObjectD ms \<Rightarrow>
                         Some (a\<lparr>Action_Params := Some (set_Attr_Type
                                 (Some (ObjectD (ms @ [(wc, attribute_of_type
                                    (PrimitiveD StringKind))]))) ps)\<rparr>)
                     | _ \<Rightarrow> Some a))))"

fun add_wildcards :: "env \<Rightarrow> string list \<Rightarrow> ActionDefinition \<Rightarrow> ActionDefinition option" where
  "add_wildcards E [] a = Some a"
| "add_wildcards E (wc # wcs) a =
     (case add_wildcard E wc a of None \<Rightarrow> None | Some a' \<Rightarrow> add_wildcards E wcs a')"

text \<open>All the wildcards of all the routes of an action, in the order of the two loops.\<close>

definition route_wildcards :: "env \<Rightarrow> string \<Rightarrow> ActionDefinition \<Rightarrow> string list" where
  "route_wildcards E res a = concat (map (Wildcards E res) (Action_Routes a))"

text \<open>The iterator that \<open>finalizeResource\<close> passes to \<open>IterateActions\<close>.\<close>

definition finalizeAction :: "env \<Rightarrow> APIDefinition \<Rightarrow> ResourceDefinition \<Rightarrow> ActionDefinition
  \<Rightarrow> ActionDefinition option" where
  "finalizeAction E D parent a =
     add_wildcards E (route_wildcards E (Resource_Name parent) a)
       (a\<lparr>Action_Responses := map (merge_response D parent) (Action_Responses a)\<rparr>)"

text \<open>
  Modelled from the spec: \<open>IterateActions\<close> is not among the sources. It calls the
  iterator on every action of the resource, one after the other.
\<close>

fun IterateActions :: "(ActionDefinition \<Rightarrow> ActionDefinition option)
  \<Rightarrow> (string \<times> ActionDefinition) list \<Rightarrow> (string \<times> ActionDefinition) list option" where
  "IterateActions it [] = Some []"
| "IterateActions it ((k, a) # rest) =
     (case it a of
        None \<Rightarrow> None
      | Some a' \<Rightarrow>
          (case IterateActions it rest of
             None \<Rightarrow> None
           | Some rest' \<Rightarrow> Some ((k, a') # rest')))"

definition finalizeResource :: "env \<Rightarrow> APIDefinition \<Rightarrow> ResourceDefinition
  \<Rightarrow> ResourceDefinition option" where
  "finalizeResource E D r =
     (case IterateActions (finalizeAction E D r) (Resource_Actions r) of
        None \<Rightarrow> None
      | Some acts \<Rightarrow> Some (r\<lparr>Resource_Actions := acts\<rparr>))"


subsection \<open>\<open>RunDSL\<close>\<close>

text \<open>
  The DSL bodies are kept outside the definitions, which hold the number of their body:
  \<open>B\<close> maps the number to the function. A loop \<open>for _, t := range Design.Types\<close> walks
  the keys that the map has when the loop starts and reads each entry when it reaches it; an
  entry that is gone by then is skipped. \<open>None\<close> is a panic.
\<close>

fun exec_each :: "(nat \<Rightarrow> world \<Rightarrow> world)
  \<Rightarrow> (APIDefinition \<Rightarrow> string \<Rightarrow> (nat option \<times> DSLDefinition) option)
  \<Rightarrow> string list \<Rightarrow> world \<Rightarrow> world option" where
  "exec_each B entry [] w = Some w"
| "exec_each B entry (k # ks) w =
     (case Option.bind (Design w) (\<lambda>D. entry D k) of
        None \<Rightarrow> exec_each B entry ks w
      | Some (dsl, ctx) \<Rightarrow>
          (case executeDSL (map_option B dsl) ctx w of
             None \<Rightarrow> None
           | Some (ok, w') \<Rightarrow> exec_each B entry ks w'))"

definition type_entry :: "APIDefinition \<Rightarrow> string \<Rightarrow> (nat option \<times> DSLDefinition) option" where
  "type_entry D k = map_option (\<lambda>t. (UT_DSL t, CtxType k)) (map_of (API_Types D) k)"

definition media_type_entry :: "APIDefinition \<Rightarrow> string \<Rightarrow> (nat option \<times> DSLDefinition) option" where
  "media_type_entry D k =
     map_option (\<lambda>mt. (MT_DSL mt, CtxMediaType k)) (map_of (API_MediaTypes D) k)"

definition resource_entry :: "APIDefinition \<Rightarrow> string \<Rightarrow> (nat option \<times> DSLDefinition) option" where
  "resource_entry D k =
     map_option (\<lambda>r. (Resource_DSL r, CtxResource k)) (map_of (API_Resources D) k)"

text \<open>The first half of \<open>RunDSL\<close>: the API body, then the three loops over the bodies.\<close>

definition run_bodies :: "(nat \<Rightarrow> world \<Rightarrow> world) \<Rightarrow> world \<Rightarrow> world option" where
  "run_bodies B w0 =
     Option.bind (Design w0) (\<lambda>D0.
     Option.bind (executeDSL (map_option B (API_DSL D0)) CtxAPI w0) (\<lambda>(ok, w1).
     Option.bind (Design w1) (\<lambda>D1.
     Option.bind (exec_each B type_entry (map fst (API_Types D1)) w1) (\<lambda>w2.
     Option.bind (Design w2) (\<lambda>D2.
     Option.bind (exec_each B media_type_entry (map fst (API_MediaTypes D2)) w2) (\<lambda>w3.
     Option.bind (Design w3) (\<lambda>D3.
     exec_each B resource_entry (map fst (API_Resources D3)) w3)))))))"

text \<open>
  The second half: the three finalize loops. Next to the design they return, as a record of
  the run, the calls of the finalize functions in the order in which they are made.
\<close>

datatype event = FinalizeType string | FinalizeMediaType string | FinalizeResource string

fun finalize_resources :: "env \<Rightarrow> APIDefinition \<Rightarrow> (string \<times> ResourceDefinition) list
  \<Rightarrow> (string \<times> ResourceDefinition) list option" where
  "finalize_resources E D [] = Some []"
| "finalize_resources E D ((k, r) # rest) =
     (case finalizeResource E D r of
        None \<Rightarrow> None
      | Some r' \<Rightarrow>
          (case finalize_resources E D rest of
             None \<Rightarrow> None
           | Some rest' \<Rightarrow> Some ((k, r') # rest')))"

definition finalize_pass :: "env \<Rightarrow> APIDefinition \<Rightarrow> (APIDefinition \<times> event list) option" where
  "finalize_pass E D =
     (let D1 = D\<lparr>API_Types := map (\<lambda>p. (fst p, finalizeType (snd p))) (API_Types D)\<rparr>;
          D2 = D1\<lparr>API_MediaTypes :=
                   map (\<lambda>p. (fst p, finalizeMediaType (snd p))) (API_MediaTypes D1)\<rparr>
      in case finalize_resources E D2 (API_Resources D2) of
           None \<Rightarrow> None
         | Some rs \<Rightarrow>
             Some (D2\<lparr>API_Resources := rs\<rparr>,
                   map (\<lambda>p. FinalizeType (fst p)) (API_Types D)
                   @ map (\<lambda>p. FinalizeMediaType (fst p)) (API_MediaTypes D)
                   @ map (\<lambda>p. FinalizeResource (fst p)) (API_Resources D)))"

text \<open>
  What \<open>RunDSL\<close> returns: nil, the error of \<open>Design.Validate\<close>, or \<open>Errors\<close>; with it
  the state it leaves and the calls of the finalize functions it has made.
\<close>

datatype run_error = ValidationFailed verror | DSLErrors "Error list"

datatype run_result = Panicked | Returned "run_error option" world "event list"

definition RunDSL :: "env \<Rightarrow> (nat \<Rightarrow> world \<Rightarrow> world) \<Rightarrow> world \<Rightarrow> run_result" where
  "RunDSL E B w =
     (if Design w = None then Returned None w []
      else case run_bodies B (w\<lparr>Errors := None\<rparr>) of
        None \<Rightarrow> Panicked
      | Some w1 \<Rightarrow>
          (case Design w1 of
             None \<Rightarrow> Panicked
           | Some D1 \<Rightarrow>
               (case API_Validate E D1 of
                  (Some err, D2) \<Rightarrow>
                    Returned (Some (ValidationFailed err)) (w1\<lparr>Design := Some D2\<rparr>) []
                | (None, D2) \<Rightarrow>
                    (case Errors w1 of
                       Some es \<Rightarrow> Returned (Some (DSLErrors es)) (w1\<lparr>Design := Some D2\<rparr>) []
                     | None \<Rightarrow>
                         (case finalize_pass E D2 of
                            None \<Rightarrow> Panicked
                          | Some (D3, evs) \<Rightarrow>
                              Returned None (w1\<lparr>Design := Some D3\<rparr>) evs)))))"

subsection \<open>What the claims about the passes speak of, and sample definitions\<close>

text \<open>
  \<open>nested a b\<close>: the attribute \<open>b\<close> is \<open>a\<close> itself or is reached from \<open>a\<close> through
  members of objects.
\<close>

inductive nested :: "AttributeDefinition \<Rightarrow> AttributeDefinition \<Rightarrow> bool" where
  nested_self: "nested a a"
| nested_member: "Attr_Type a = Some (ObjectD ms) \<Longrightarrow> (n, att) \<in> set ms \<Longrightarrow> nested att b
    \<Longrightarrow> nested a b"

text \<open>A response shares its status with a response under another name.\<close>

definition shares_status :: "(string \<times> ResponseDefinition) list \<Rightarrow> string \<times> ResponseDefinition
  \<Rightarrow> bool" where
  "shares_status rs p =
     list_ex (\<lambda>q. fst p \<noteq> fst q \<and> Response_Status (snd p) = Response_Status (snd q)) rs"

text \<open>The object of the parameters of an action; none when the action has no parameters.\<close>

definition params_object :: "ActionDefinition \<Rightarrow> (string \<times> AttributeDefinition) list" where
  "params_object a =
     (case Action_Params a of
        None \<Rightarrow> []
      | Some ps \<Rightarrow> (case object_of (Attr_Type ps) of None \<Rightarrow> [] | Some ms \<Rightarrow> ms))"

text \<open>
  The parameters are absent or of an object type: what \<open>ValidateParams\<close> accepts.
\<close>

definition params_ok :: "ActionDefinition \<Rightarrow> bool" where
  "params_ok a =
     (case Action_Params a of
        None \<Rightarrow> True
      | Some ps \<Rightarrow> object_of (Attr_Type ps) \<noteq> None)"

text \<open>An environment for the samples: the wildcards of three paths are given.\<close>

definition sample_env :: env where
  "sample_env = \<lparr> ParseMediaType = (\<lambda>s. None),
                  FindAllStringSubmatch = (\<lambda>s. []),
                  RefKind = (\<lambda>n. UserTypeKind),
                  RefObject = (\<lambda>n. None),
                  Wildcards = (\<lambda>res r.
                    if Route_Path r = ''/accounts/:accountID/bottles/:id''
                    then [''accountID'', ''id'']
                    else if Route_Path r = ''/bottles/:bottleID'' then [''bottleID'']
                    else if Route_Path r = ''/:id'' then [''id''] else []) \<rparr>"

definition mk_response :: "string \<Rightarrow> int \<Rightarrow> ResponseDefinition" where
  "mk_response n s = \<lparr> Response_Name = n, Response_Status = s, Response_Description = [],
     Response_MediaType = [], Response_Headers = [] \<rparr>"

text \<open>A media type with a name, no identifier and no type.\<close>

definition sample_media_type :: MediaTypeDefinition where
  "sample_media_type = \<lparr> MT_AttributeDefinition = AttributeDefinition None [] [] VNil [],
     MT_TypeName = ''Bottle'', MT_BaseType = None, MT_DSL = None, MT_Identifier = [],
     MT_Views = [], MT_Links = [] \<rparr>"

text \<open>
  An action \<open>show\<close> with two routes, the first the one of the spec's scenario, and the
  parameter \<open>id\<close>.
\<close>

definition sample_action :: ActionDefinition where
  "sample_action = \<lparr> Action_Name = ''show'',
     Action_Routes = [\<lparr> Route_Verb = ''GET'', Route_Path = ''/accounts/:accountID/bottles/:id'' \<rparr>,
                      \<lparr> Route_Verb = ''GET'', Route_Path = ''/bottles/:bottleID'' \<rparr>],
     Action_Responses = [(''OK'', mk_response [] 0), (''NotFound'', mk_response ''NotFound'' 404)],
     Action_Params = Some (attribute_of_type
       (ObjectD [(''id'', attribute_of_type (PrimitiveD IntegerKind))])),
     Action_Payload = None, Action_Headers = None \<rparr>"

text \<open>An action with no name and two responses of status 200.\<close>

definition unnamed_action :: ActionDefinition where
  "unnamed_action = \<lparr> Action_Name = [],
     Action_Routes = [\<lparr> Route_Verb = ''GET'', Route_Path = ''/:id'' \<rparr>],
     Action_Responses = [(''OK'', mk_response ''OK'' 200), (''Fine'', mk_response ''Fine'' 200)],
     Action_Params = None, Action_Payload = None, Action_Headers = None \<rparr>"

definition sample_resource :: ResourceDefinition where
  "sample_resource = \<lparr> Resource_Name = ''bottle'', Resource_ParentName = [],
     Resource_CanonicalAction = [], Resource_BasePath = [], Resource_BaseParams = None,
     Resource_MediaType = [], Resource_Actions = [(''show'', sample_action)],
     Resource_Responses = [], Resource_DSL = None \<rparr>"

definition sample_design :: APIDefinition where
  "sample_design = \<lparr> API_DSL = None, API_Types = [],
     API_MediaTypes = [(''Bottle'', sample_media_type)],
     API_Resources = [(''bottle'', sample_resource)],
     API_Responses = [(''OK'', mk_response ''OK'' 200)],
     API_DefaultResponses = [] \<rparr>"

text \<open>
  An attribute of array type whose elements are objects with no member, required to have
  the member \<open>name\<close>.
\<close>

definition array_of_bad_objects :: AttributeDefinition where
  "array_of_bad_objects = attribute_of_type (ArrayD
     (AttributeDefinition (Some (ObjectD [])) []
        [RequiredValidationDefinition [''name'']] VNil []))"

text \<open>An object whose member \<open>inner\<close> is an object required to have the member \<open>name\<close>.\<close>

definition object_with_bad_member :: AttributeDefinition where
  "object_with_bad_member = attribute_of_type (ObjectD
     [(''id'', attribute_of_type (PrimitiveD IntegerKind)),
      (''inner'', AttributeDefinition (Some (ObjectD [])) []
         [RequiredValidationDefinition [''name'']] VNil [])])"


text \<open>
  The media type with the defaults that \<open>Validate\<close> assigns: the identifier
  \<open>plain/text\<close> when it has none, the type \<open>String\<close> when it has none.
\<close>

definition with_defaults :: "MediaTypeDefinition \<Rightarrow> MediaTypeDefinition" where
  "with_defaults m =
     (let m1 = (if MT_Identifier m \<noteq> [] then m else m\<lparr>MT_Identifier := ''plain/text''\<rparr>)
      in case Attr_Type (MT_AttributeDefinition m1) of
           None \<Rightarrow> m1\<lparr>MT_AttributeDefinition :=
             set_Attr_Type (Some (PrimitiveD StringKind)) (MT_AttributeDefinition m1)\<rparr>
         | Some t \<Rightarrow> m1)"

text \<open>
  The checks of \<open>MediaTypeDefinition.Validate\<close> on a media type that has its defaults.
\<close>

definition validate_defaulted :: "env \<Rightarrow> (string \<times> MediaTypeDefinition) list
  \<Rightarrow> MediaTypeDefinition \<Rightarrow> verror option" where
  "validate_defaulted E mts d =
     (if MT_TypeName d = [] then Some (Errorf ''Media type must have a name'' [])
      else case ParseMediaType E (MT_Identifier d) of
        Some err \<Rightarrow> Some (Errorf ''invalid media type identifier: %s'' [AStr err])
      | None \<Rightarrow>
          (case Attr_Type (MT_AttributeDefinition d) of
             None \<Rightarrow> None
           | Some t \<Rightarrow>
               (case ToObject E t of
                  None \<Rightarrow> None
                | Some ob \<Rightarrow> check_views mts (MT_Identifier d) ob)))"

text \<open>Two maps of media types hold the same media types up to these defaults.\<close>

definition same_defaults :: "(string \<times> MediaTypeDefinition) list
  \<Rightarrow> (string \<times> MediaTypeDefinition) list \<Rightarrow> bool" where
  "same_defaults mts mts' =
     (map (\<lambda>p. (fst p, with_defaults (snd p))) mts'
        = map (\<lambda>p. (fst p, with_defaults (snd p))) mts)"

text \<open>
  The error with which an action reports that the response \<open>r\<close> has failed its own
  validation with the error \<open>err\<close>.
\<close>

definition invalid_response_error :: "ResponseDefinition \<Rightarrow> verror \<Rightarrow> verror" where
  "invalid_response_error r err =
     (if Response_Status r = 0 then Errorf ''invalid response definition: %s'' [AErr err]
      else Errorf ''invalid %d response definition: %s'' [AInt (Response_Status r), AErr err])"

text \<open>
  An action whose first response has the status 404 and the media type \<open>Bottle\<close>, and
  whose two other responses have the status 200; and the same action with a first response
  that has no status.
\<close>

definition duplicate_action :: ActionDefinition where
  "duplicate_action = \<lparr> Action_Name = ''show'',
     Action_Routes = [\<lparr> Route_Verb = ''GET'', Route_Path = ''/:id'' \<rparr>],
     Action_Responses =
       [(''NotFound'', (mk_response ''NotFound'' 404)\<lparr>Response_MediaType := ''Bottle''\<rparr>),
        (''OK'', mk_response ''OK'' 200), (''Fine'', mk_response ''Fine'' 200)],
     Action_Params = None, Action_Payload = None, Action_Headers = None \<rparr>"

definition unset_status_action :: ActionDefinition where
  "unset_status_action = duplicate_action\<lparr>Action_Responses :=
       [(''NotFound'', mk_response ''NotFound'' 0),
        (''OK'', mk_response ''OK'' 200), (''Fine'', mk_response ''Fine'' 200)]\<rparr>"

text \<open>
  An object type whose member \<open>rows\<close> is an array of arrays of integers, and a map in
  which \<open>id\<close> is a boolean and \<open>rows\<close> is a slice with one nil element, as the JSON
  object with \<open>id\<close> true and \<open>rows\<close> the array of one null decodes.
\<close>

definition rows_object :: "(string \<times> Member) list" where
  "rows_object =
     [(''id'', Member (Primitive IntegerType) [] [] VNil),
      (''rows'', Member (Array (Array (Primitive IntegerType))) [] [] VNil)]"

definition rows_map :: "(string \<times> val) list" where
  "rows_map = [(''id'', VBool True), (''rows'', VSlice [VNil])]"

text \<open>A DSL body that records one error, as \<open>ReportError\<close> does, and nothing else.\<close>

definition report :: "string \<Rightarrow> world \<Rightarrow> world" where
  "report msg w =
     w\<lparr>Errors := append_slice (Errors w) [\<lparr>GoError = msg, File = [], Line = 0\<rparr>]\<rparr>"


text \<open>
  The parameters that the wildcard loop adds to an object with the given keys, for the
  wildcards in the order of the loop.
\<close>

fun new_params :: "string list \<Rightarrow> string list \<Rightarrow> (string \<times> AttributeDefinition) list" where
  "new_params keys [] = []"
| "new_params keys (wc # wcs) =
     (if wc \<in> set keys then new_params keys wcs
      else (wc, attribute_of_type (PrimitiveD StringKind)) # new_params (keys @ [wc]) wcs)"

text \<open>
  \<open>wildcards_added E res a a'\<close>: the parameters of \<open>a'\<close> are those of \<open>a\<close>, unchanged and
  in place, followed by new ones; each new one is named after a wildcard of a route of \<open>a\<close>
  that had no parameter, has the type \<open>String\<close> and no validation, and no name is added
  twice; and every wildcard of every route has a parameter in \<open>a'\<close>.
\<close>

definition wildcards_added :: "env \<Rightarrow> string \<Rightarrow> ActionDefinition \<Rightarrow> ActionDefinition \<Rightarrow> bool" where
  "wildcards_added E res a a' =
     (\<exists>new. params_object a' = params_object a @ new
        \<and> distinct (map fst new)
        \<and> (\<forall>q\<in>set new. snd q = attribute_of_type (PrimitiveD StringKind)
              \<and> (\<exists>r\<in>set (Action_Routes a). fst q \<in> set (Wildcards E res r))
              \<and> fst q \<notin> fst ` set (params_object a))
        \<and> (\<forall>r\<in>set (Action_Routes a). \<forall>wc\<in>set (Wildcards E res r).
              wc \<in> fst ` set (params_object a')))"

text \<open>The action \<open>show\<close> of the sample resource after \<open>finalizeResource\<close>.\<close>

definition finalized_sample_action :: ActionDefinition where
  "finalized_sample_action = sample_action\<lparr>
     Action_Responses := [(''OK'', mk_response ''OK'' 200), (''NotFound'', mk_response ''NotFound'' 404)],
     Action_Params := Some (attribute_of_type
       (ObjectD [(''id'', attribute_of_type (PrimitiveD IntegerKind)),
                 (''accountID'', attribute_of_type (PrimitiveD StringKind)),
                 (''bottleID'', attribute_of_type (PrimitiveD StringKind))]))\<rparr>"

text \<open>
  A design whose only action has no name, in a resource with a DSL body; the state before
  \<open>RunDSL\<close>, and the state after the bodies have run when the body records an error.
\<close>

definition invalid_design :: APIDefinition where
  "invalid_design = sample_design\<lparr>API_Resources :=
     [(''bottle'', sample_resource\<lparr>Resource_Actions := [(''index'', unnamed_action)],
         Resource_DSL := Some 0\<rparr>)]\<rparr>"

definition invalid_world :: world where
  "invalid_world = \<lparr>Design = Some invalid_design, Errors = None, ctxStack = []\<rparr>"

definition reported_world :: world where
  "reported_world = \<lparr>Design = Some invalid_design,
     Errors = Some [\<lparr>GoError = ''invalid use of Routing'', File = [], Line = 0\<rparr>],
     ctxStack = []\<rparr>"


section \<open>Properties of \<open>Load\<close>\<close>

subsection \<open>\<open>Primitive.Load\<close>\<close>

lemma Primitive_Load_nil: "Primitive_Load L k VNil = Ret VNil None"
  by (simp add: Primitive_Load_def)

lemma other_input_rejected:
  "other_input k v \<Longrightarrow>
   \<exists>x nm. Primitive_Name k = Some nm \<and>
     Primitive_Load L k v = Ret VNil (Some (IncompatibleValue v nm (Msg x)))"
  by (cases k; cases v) (auto simp: Primitive_Load_def)

text \<open>
  An integer 0 or 1 of a type other than \<open>int\<close> is not loaded as a Boolean: the
  comparison \<open>value == 0\<close> is between interface values, and their dynamic types differ.
\<close>

lemma Boolean_Load_uint8_one:
  "Primitive_Load L BooleanType (VInteger GoUint8 1) =
     Ret VNil (Some (IncompatibleValue (VInteger GoUint8 1) ''boolean''
       (Msg ''integer value must be 0 or 1'')))"
  by (simp add: Primitive_Load_def)

text \<open>
  Claim C7, as amended. \<open>Primitive.Load\<close> returns nil and no error on a nil input, for
  every kind. On the other inputs: the Boolean kind returns a native boolean unchanged, a
  string as \<open>strconv.ParseBool\<close> parses it, and false and true for the \<open>int\<close> values 0 and
  1; the Integer kind returns an integer of any native integer type converted to \<open>int\<close>,
  and a string as \<open>strconv.ParseInt\<close> parses it in base 10; the String kind returns a
  native string unchanged and a time value formatted as RFC3339; every other non-nil input
  of these three kinds (for the Boolean kind: among the integers, those that are neither 0
  nor 1) yields nil and an \<open>IncompatibleValue\<close> error that carries the input and the name of
  the kind. Nothing is said of the integers 0 and 1 of a type other than \<open>int\<close> under the
  Boolean kind.
\<close>

theorem Primitive_Load_cases:
  "Primitive_Load L k VNil = Ret VNil None
 \<and> Primitive_Load L BooleanType (VBool b) = Ret (VBool b) None
 \<and> Primitive_Load L BooleanType (VString s) =
     (case ParseBool L s of Inr r \<Rightarrow> Ret (VBool r) None
      | Inl e \<Rightarrow> Ret VNil (Some (IncompatibleValue (VString s) ''boolean'' (Msg e))))
 \<and> Primitive_Load L BooleanType (VInteger GoInt 0) = Ret (VBool False) None
 \<and> Primitive_Load L BooleanType (VInteger GoInt 1) = Ret (VBool True) None
 \<and> Primitive_Load L IntegerType (VInteger w n) = Ret (VInteger GoInt (to_int n)) None
 \<and> Primitive_Load L IntegerType (VString s) =
     (case ParseInt L s of Inr r \<Rightarrow> Ret (VInteger GoInt (to_int r)) None
      | Inl e \<Rightarrow> Ret VNil (Some (IncompatibleValue (VString s) ''integer'' (Msg e))))
 \<and> Primitive_Load L StringType (VString s) = Ret (VString s) None
 \<and> Primitive_Load L StringType (VTime t) = Ret (VString (FormatRFC3339 L t)) None
 \<and> (other_input k v \<longrightarrow>
      (\<exists>x nm. Primitive_Name k = Some nm \<and>
         Primitive_Load L k v = Ret VNil (Some (IncompatibleValue v nm (Msg x)))))"
  using other_input_rejected[of k v L]
  by (simp add: Primitive_Load_def split: sum.splits)

theorem Primitive_Load_cases_witness:
  "other_input BooleanType (VFloat64 0)
 \<and> Primitive_Load nolib BooleanType (VFloat64 0) =
     Ret VNil (Some (IncompatibleValue (VFloat64 0) ''boolean'' (Msg [])))"
  using Primitive_Load_cases[of nolib BooleanType True "[]" GoInt 0 0 "VFloat64 0"]
  by (simp add: Primitive_Load_def)

text \<open>
  The claim as stated fails on the nil input, which is none of the inputs it lists: the
  result is nil with no error, not an \<open>IncompatibleValue\<close>.
\<close>

theorem Primitive_Load_nil_counterexample:
  "Primitive_Load nolib BooleanType VNil = Ret VNil None
 \<and> Primitive_Load nolib BooleanType VNil \<noteq>
     Ret VNil (Some (IncompatibleValue VNil ''boolean'' (Msg [])))"
  by (simp add: Primitive_Load_def)

subsection \<open>\<open>Array.Load\<close>\<close>

lemma Array_loop_no_panic:
  "\<forall>x\<in>set xs. Load L t x \<noteq> Panic \<Longrightarrow> Array_loop L t v0 xs i acc \<noteq> Panic"
proof (induction xs arbitrary: i acc)
  case Nil
  then show ?case by simp
next
  case (Cons x xs)
  then show ?case by (cases "Load L t x") (auto split: option.splits)
qed

text \<open>On every other input \<open>Array.Load\<close> returns, provided no element's load panics.\<close>

lemma Array_Load_no_panic:
  assumes "v0 \<noteq> VNil" and "\<forall>x. Load L t x \<noteq> Panic"
  shows "Load L (Array t) v0 \<noteq> Panic"
proof (cases "array_input L v0")
  case (Inl r)
  with assms(1) show ?thesis
    by (cases v0) (auto simp: array_input_def split: sum.splits)
next
  case (Inr arr)
  with assms(2) show ?thesis
    using Array_loop_no_panic[of arr L t v0 0 "[]"] by simp
qed

text \<open>
  Claim C8 fails on the code at the nil input: \<open>Array.Load\<close> starts with
  \<open>reflect.TypeOf(value).Kind()\<close>, which panics when \<open>value\<close> is nil. No error is
  returned.
\<close>

theorem Array_Load_nil_panics: "Load L (Array t) VNil = Panic"
  by (simp add: array_input_def)

subsection \<open>\<open>Object.Load\<close>\<close>

lemma first_failure_all: "first_failure vs n r = None \<Longrightarrow> all_failures vs n r = []"
  by (induction vs) (auto split: option.splits)

lemma run_validations_ok:
  "run_validations vs n r = Ret x None \<Longrightarrow> all_failures vs n x = []"
  by (auto simp: run_validations_def first_failure_all split: res.splits option.splits)

lemma Object_loop_spec:
  "\<forall>p\<in>set ms. load_member L m p \<noteq> Crashed \<Longrightarrow>
   Object_loop L v0 m ms c errs =
     (case errs @ member_errors L v0 m ms of
        [] \<Rightarrow> Ret (VMap (coerce_members L m ms c)) None
      | e # es \<Rightarrow> Ret VNil (Some e))"
proof (induction ms arbitrary: c errs)
  case Nil
  then show ?case by (simp split: list.splits)
next
  case (Cons p ms)
  obtain n t d vs dv where p: "p = (n, Member t d vs dv)"
    by (cases p, cases "snd p") auto
  from Cons.prems have rest: "\<forall>p\<in>set ms. load_member L m p \<noteq> Crashed"
    and here: "load_member L m p \<noteq> Crashed" by auto
  show ?case
  proof (cases "map_get m n = VNil")
    case True
    then show ?thesis
      using Cons.IH[OF rest] by (simp add: p load_member_def split: list.splits)
  next
    case False
    show ?thesis
    proof (cases "run_validations vs n (Load L t (map_get m n))")
      case Panic
      with here False show ?thesis by (simp add: p load_member_def Member_Load_def split: list.splits)
    next
      case (Ret x eo)
      show ?thesis
      proof (cases eo)
        case None
        with Ret have "all_failures vs n x = []" by (simp add: run_validations_ok)
        with None Ret False show ?thesis
          using Cons.IH[OF rest] by (simp add: p load_member_def Member_Load_def split: list.splits)
      next
        case (Some e)
        with Ret False show ?thesis
          using Cons.IH[OF rest] by (simp add: p load_member_def Member_Load_def split: list.splits)
      qed
    qed
  qed
qed

lemma member_errors_none:
  "\<forall>q\<in>set ms. \<not> has_failed (load_member L m q) \<Longrightarrow> member_errors L v0 m ms = []"
  by (induction ms) (auto split: member_outcome.splits)

lemma member_errors_first:
  "\<forall>q\<in>set pre. \<not> has_failed (load_member L m q) \<Longrightarrow> load_member L m p = Failed e \<Longrightarrow>
   member_errors L v0 m (pre @ p # post) =
     IncompatibleValue v0 ''Object'' (CouldNotLoadMember (fst p) e)
       # member_errors L v0 m post"
  by (induction pre) (auto split: member_outcome.splits)

lemma map_of_map_set: "map_of (map_set c n v) = (map_of c)(n \<mapsto> v)"
  by (induction c n v rule: map_set.induct) auto

lemma keys_map_set: "fst ` set (map_set c n v) = insert n (fst ` set c)"
  by (induction c n v rule: map_set.induct) auto

lemma coerce_members_keys:
  "\<forall>q\<in>set ms. load_member L m q \<noteq> Crashed \<and> \<not> has_failed (load_member L m q) \<Longrightarrow>
   fst ` set (coerce_members L m ms c) = fst ` set c \<union> fst ` set ms"
proof (induction ms arbitrary: c)
  case Nil
  then show ?case by simp
next
  case (Cons p ms)
  then show ?case
    by (cases "load_member L m p") (auto simp: keys_map_set)
qed

lemma coerce_members_other:
  "k \<notin> fst ` set ms \<Longrightarrow> map_of (coerce_members L m ms c) k = map_of c k"
  by (induction ms arbitrary: c) (auto simp: map_of_map_set split: member_outcome.splits)

lemma coerce_members_lookup:
  "distinct (map fst ms) \<Longrightarrow> q \<in> set ms \<Longrightarrow>
   \<forall>q\<in>set ms. load_member L m q \<noteq> Crashed \<and> \<not> has_failed (load_member L m q) \<Longrightarrow>
   map_of (coerce_members L m ms c) (fst q) = Some (member_value (load_member L m q))"
proof (induction ms arbitrary: c)
  case Nil
  then show ?case by simp
next
  case (Cons p ms)
  show ?case
  proof (cases "q = p")
    case True
    with Cons.prems have "fst p \<notin> fst ` set ms" by auto
    with True Cons.prems show ?thesis
      by (cases "load_member L m p") (auto simp: coerce_members_other map_of_map_set)
  next
    case False
    with Cons show ?thesis by auto
  qed
qed


text \<open>
  What \<open>Object.Load\<close> returns when no member's load panics. Let the input be a
  string-keyed map, or a string that \<open>json.Unmarshal\<close> decodes to one. If some member
  fails to load or to validate, the result is nil and the error of the first such member in
  iteration order, wrapped with the member's name; the errors of later members are dropped.
  If no member fails, the result is a map with exactly the declared members as keys, each
  bound to the loaded value of the matching key, or to the member's default when the key is
  absent or nil.
\<close>

lemma object_input_map:
  "v0 = VMap m \<or> (\<exists>s. v0 = VString s \<and> UnmarshalObject L s = Inr m) \<Longrightarrow>
   object_input L v0 = Inr m"
  by (auto simp: object_input_def)

lemma Object_Load_without_panic:
  assumes inp: "v0 = VMap m \<or> (\<exists>s. v0 = VString s \<and> UnmarshalObject L s = Inr m)"
    and nocrash: "\<forall>q\<in>set ms. load_member L m q \<noteq> Crashed"
  shows "(ms = pre @ p # post \<and> (\<forall>q\<in>set pre. \<not> has_failed (load_member L m q))
            \<and> load_member L m p = Failed e
          \<longrightarrow> Load L (Object ms) v0 =
                Ret VNil (Some (IncompatibleValue v0 ''Object''
                  (CouldNotLoadMember (fst p) e))))
       \<and> ((\<forall>q\<in>set ms. \<not> has_failed (load_member L m q))
          \<longrightarrow> (\<exists>c. Load L (Object ms) v0 = Ret (VMap c) None
                 \<and> fst ` set c = fst ` set ms
                 \<and> (distinct (map fst ms) \<longrightarrow>
                      (\<forall>q\<in>set ms. map_of c (fst q)
                         = Some (member_value (load_member L m q))))))"
proof (intro conjI impI)
  note oi = object_input_map[OF inp]
  assume h: "ms = pre @ p # post \<and> (\<forall>q\<in>set pre. \<not> has_failed (load_member L m q))
            \<and> load_member L m p = Failed e"
  then have "member_errors L v0 m ms =
     IncompatibleValue v0 ''Object'' (CouldNotLoadMember (fst p) e)
       # member_errors L v0 m post"
    using member_errors_first[of pre L m p e v0 post] by simp
  then show "Load L (Object ms) v0 =
                Ret VNil (Some (IncompatibleValue v0 ''Object''
                  (CouldNotLoadMember (fst p) e)))"
    using oi Object_loop_spec[OF nocrash, of v0 "[]" "[]"] by simp
next
  note oi = object_input_map[OF inp]
  assume nf: "\<forall>q\<in>set ms. \<not> has_failed (load_member L m q)"
  let ?c = "coerce_members L m ms []"
  have both: "\<forall>q\<in>set ms. load_member L m q \<noteq> Crashed \<and> \<not> has_failed (load_member L m q)"
    using nf nocrash by blast
  have 1: "Load L (Object ms) v0 = Ret (VMap ?c) None"
    using oi Object_loop_spec[OF nocrash, of v0 "[]" "[]"]
      member_errors_none[OF nf, of v0] by simp
  have 2: "fst ` set ?c = fst ` set ms"
    using coerce_members_keys[OF both, of "[]"] by simp
  have 3: "distinct (map fst ms) \<longrightarrow>
             (\<forall>q\<in>set ms. map_of ?c (fst q) = Some (member_value (load_member L m q)))"
    using coerce_members_lookup[OF _ _ both] by blast
  from 1 2 3 show "\<exists>c. Load L (Object ms) v0 = Ret (VMap c) None
                 \<and> fst ` set c = fst ` set ms
                 \<and> (distinct (map fst ms) \<longrightarrow>
                      (\<forall>q\<in>set ms. map_of c (fst q)
                         = Some (member_value (load_member L m q))))"
    by blast
qed

lemma Object_Load_sample:
  "Load nolib (Object sample_object) (VMap sample_map) =
     Ret VNil (Some (IncompatibleValue (VMap sample_map) ''Object''
       (CouldNotLoadMember ''ok''
          (IncompatibleValue (VFloat64 0) ''boolean'' (Msg [])))))"
  using Object_Load_without_panic[of "VMap sample_map" sample_map nolib sample_object
      "[(''id'', Member (Primitive IntegerType) [] [] VNil)]"
      "(''ok'', Member (Primitive BooleanType) [] [] (VBool True))"
      "[(''tags'', Member (Array (Primitive StringType)) [] [] VNil)]"
      "IncompatibleValue (VFloat64 0) ''boolean'' (Msg [])"]
  by (simp add: sample_object_def sample_map_def object_input_def load_member_def
      map_get_def Member_Load_def run_validations_def Primitive_Load_def array_input_def)

text \<open>
  Claim C2 fails on the code. The object type has the members \<open>id\<close>, an integer, and
  \<open>rows\<close>, an array of arrays of integers; in the input map \<open>id\<close> is a boolean and
  \<open>rows\<close> is a slice whose one element is nil. The member \<open>id\<close> fails to load, and its
  error is recorded; then the load of \<open>rows\<close> calls \<open>Array.Load\<close> on the nil element,
  which panics, so \<open>Object.Load\<close> panics and returns neither nil nor the first error.
\<close>

theorem Object_Load_panics_on_nil_element:
  "load_member L rows_map (''id'', Member (Primitive IntegerType) [] [] VNil) =
     Failed (IncompatibleValue (VBool True) ''integer'' (Msg []))
 \<and> load_member L rows_map (''rows'', Member (Array (Array (Primitive IntegerType))) [] [] VNil)
     = Crashed
 \<and> Load L (Object rows_object) (VMap rows_map) = Panic"
  by (simp add: rows_object_def rows_map_def object_input_def load_member_def map_get_def
      Member_Load_def run_validations_def Primitive_Load_def array_input_def)

section \<open>Properties of the design passes\<close>

subsection \<open>\<open>executeDSL\<close>\<close>

lemma len_append_slice: "len (append_slice s ys) = len s + length ys"
  by (auto simp: len_def append_slice_def split: option.splits)

text \<open>
  Claim C10. With a nil body \<open>executeDSL\<close> returns true and leaves the state as it is.
  With a body it pushes the context, so that during the body the context is the current
  one. If the body leaves the stack as it found it, \<open>executeDSL\<close> returns, whatever errors
  were recorded; the stack is then the one before the call and the rest of the state is as
  the body left it; and when the body has only appended to \<open>Errors\<close>, the flag returned is
  true exactly when it has appended nothing.
\<close>

theorem executeDSL_preserves_stack:
  "executeDSL None ctx w = Some (True, w)
 \<and> current (ctxStack w @ [ctx]) = Some ctx
 \<and> (ctxStack (body (w\<lparr>ctxStack := ctxStack w @ [ctx]\<rparr>)) = ctxStack w @ [ctx] \<longrightarrow>
      (\<exists>ok. executeDSL (Some body) ctx w =
               Some (ok, (body (w\<lparr>ctxStack := ctxStack w @ [ctx]\<rparr>))\<lparr>ctxStack := ctxStack w\<rparr>)
          \<and> (\<forall>added. Errors (body (w\<lparr>ctxStack := ctxStack w @ [ctx]\<rparr>))
                        = append_slice (Errors w) added
                \<longrightarrow> (ok \<longleftrightarrow> added = []))))"
  by (auto simp: executeDSL_def current_def Let_def len_append_slice)

theorem executeDSL_preserves_stack_witness:
  "executeDSL (Some (report ''invalid use of Routing'')) (CtxResource ''bottle'')
     \<lparr>Design = None, Errors = None, ctxStack = [CtxAPI]\<rparr>
   = Some (False, \<lparr>Design = None,
        Errors = Some [\<lparr>GoError = ''invalid use of Routing'', File = [], Line = 0\<rparr>],
        ctxStack = [CtxAPI]\<rparr>)"
  using executeDSL_preserves_stack[of "CtxResource ''bottle''"
      "\<lparr>Design = None, Errors = None, ctxStack = [CtxAPI]\<rparr>" "report ''invalid use of Routing''"]
  by (simp add: report_def append_slice_def executeDSL_def len_def)


subsection \<open>\<open>MediaTypeDefinition.Validate\<close>\<close>

lemma MediaType_Validate_frame:
  "MediaType_Validate E mts m = (err, m') \<Longrightarrow>
   MT_TypeName m' = MT_TypeName m \<and> MT_Views m' = MT_Views m \<and> MT_Links m' = MT_Links m
   \<and> MT_BaseType m' = MT_BaseType m \<and> MT_DSL m' = MT_DSL m
   \<and> Attr_Validations (MT_AttributeDefinition m') = Attr_Validations (MT_AttributeDefinition m)
   \<and> (MT_Identifier m \<noteq> [] \<longrightarrow> MT_Identifier m' = MT_Identifier m)
   \<and> (Attr_Type (MT_AttributeDefinition m) \<noteq> None \<longrightarrow>
        Attr_Type (MT_AttributeDefinition m') = Attr_Type (MT_AttributeDefinition m))"
  by (auto simp: MediaType_Validate_def set_Attr_Type_def Let_def split: if_splits option.splits)

text \<open>
  Claim C1 fails on the code. On a media type with a name, a valid identifier and a nil
  type, \<open>Validate\<close> returns no error and has set the type to \<open>String\<close>; when the
  identifier is empty as well, it has also set the identifier to \<open>plain/text\<close>. In both
  cases the media type is not the one before the call. The comment in the source at the
  assignment to \<open>m.Type\<close> asks to move it out of the validation code.
\<close>

theorem MediaType_Validate_mutates:
  "MediaType_Validate sample_env mts
     (sample_media_type\<lparr>MT_Identifier := ''application/vnd.goa.example.bottle''\<rparr>) =
     (None, sample_media_type\<lparr> MT_Identifier := ''application/vnd.goa.example.bottle'',
        MT_AttributeDefinition := AttributeDefinition (Some (PrimitiveD StringKind)) [] [] VNil [] \<rparr>)
 \<and> MediaType_Validate sample_env mts sample_media_type =
     (None, sample_media_type\<lparr> MT_Identifier := ''plain/text'',
        MT_AttributeDefinition := AttributeDefinition (Some (PrimitiveD StringKind)) [] [] VNil [] \<rparr>)
 \<and> snd (MediaType_Validate sample_env mts
       (sample_media_type\<lparr>MT_Identifier := ''application/vnd.goa.example.bottle''\<rparr>))
     \<noteq> sample_media_type\<lparr>MT_Identifier := ''application/vnd.goa.example.bottle''\<rparr>
 \<and> snd (MediaType_Validate sample_env mts sample_media_type) \<noteq> sample_media_type"
  by (simp add: MediaType_Validate_def sample_media_type_def sample_env_def set_Attr_Type_def)

subsection \<open>\<open>AttributeDefinition.Validate\<close>\<close>

lemma check_names_missing:
  "n \<in> set ns \<Longrightarrow> n \<notin> set keys \<Longrightarrow> check_names keys ns \<noteq> None"
  by (induction ns) auto

lemma check_validations_missing:
  "RequiredValidationDefinition ns \<in> set vs \<Longrightarrow> n \<in> set ns \<Longrightarrow> n \<notin> set keys \<Longrightarrow>
   check_validations isObject keys vs \<noteq> None"
proof (induction vs)
  case Nil
  then show ?case by simp
next
  case (Cons v vs)
  then show ?case
    by (cases v) (auto simp: check_names_missing split: option.splits)
qed

lemma Attributes_Validate_member:
  "(n, att) \<in> set ms \<Longrightarrow> Attribute_Validate att \<noteq> None \<Longrightarrow> Attributes_Validate ms \<noteq> None"
  by (induction ms) (auto split: option.splits)

lemma Attribute_Validate_object:
  "Attr_Type a = Some (ObjectD ms) \<Longrightarrow>
   Attribute_Validate a =
     (case check_validations True (map fst ms) (Attr_Validations a) of
        Some e \<Rightarrow> Some e | None \<Rightarrow> Attributes_Validate ms)"
  by (cases a) simp

text \<open>
  Claim C4, as amended. Let \<open>b\<close> be an attribute of object type that is the attribute
  \<open>a\<close> itself or is reached from it through members of objects, at any depth. If a
  \<open>Required\<close> validation of \<open>b\<close> names a member that \<open>b\<close>'s object does not have, then
  \<open>Validate\<close> on \<open>a\<close> returns an error.
\<close>

theorem Attribute_Validate_required:
  assumes "nested a b" and "Attr_Type b = Some (ObjectD ms)"
    and "RequiredValidationDefinition ns \<in> set (Attr_Validations b)"
    and "n \<in> set ns" and "n \<notin> fst ` set ms"
  shows "Attribute_Validate a \<noteq> None"
  using assms
proof (induction rule: nested.induct)
  case (nested_self a)
  then show ?case
    using check_validations_missing[of ns "Attr_Validations a" n "map fst ms" True]
    by (auto simp: Attribute_Validate_object split: option.splits)
next
  case (nested_member a ms' k att b)
  then have "Attribute_Validate att \<noteq> None" by simp
  with nested_member.hyps(1,2) show ?case
    using Attributes_Validate_member[of k att ms']
    by (auto simp: Attribute_Validate_object split: option.splits)
qed


theorem Attribute_Validate_required_witness:
  "nested object_with_bad_member
     (AttributeDefinition (Some (ObjectD [])) [] [RequiredValidationDefinition [''name'']] VNil [])
 \<and> Attribute_Validate object_with_bad_member \<noteq> None"
proof -
  let ?b = "AttributeDefinition (Some (ObjectD [])) [] [RequiredValidationDefinition [''name'']]
              VNil []"
  have n: "nested object_with_bad_member ?b"
    by (rule nested_member[where n = "''inner''" and att = ?b
          and ms = "[(''id'', attribute_of_type (PrimitiveD IntegerKind)), (''inner'', ?b)]"])
       (simp_all add: object_with_bad_member_def attribute_of_type_def nested_self)
  show ?thesis
    using n Attribute_Validate_required[OF n, of "[]" "[''name'']" "''name''"] by simp
qed

text \<open>
  The claim as stated fails for an object that is the element type of an array: the type
  assertion \<open>a.Type.(Object)\<close> fails on the array, and \<open>Validate\<close> returns nil without
  visiting the element attribute.
\<close>

theorem Attribute_Validate_array_counterexample:
  "Attribute_Validate array_of_bad_objects = None"
  by (simp add: array_of_bad_objects_def attribute_of_type_def)


subsection \<open>\<open>ActionDefinition.Validate\<close>\<close>

lemma shares_status_eq:
  "list_ex (\<lambda>(j, r2). i \<noteq> j \<and> Response_Status r = Response_Status r2) rs
     = shares_status rs (i, r)"
  by (simp add: shares_status_def case_prod_unfold)

lemma check_responses_append:
  "check_responses E rs mts (pre @ rest) =
     (case check_responses E rs mts pre of
        (Some e, m') \<Rightarrow> (Some e, m')
      | (None, m') \<Rightarrow> check_responses E rs m' rest)"
proof (induction pre arbitrary: mts)
  case Nil
  then show ?case by simp
next
  case (Cons p pre)
  obtain i r where p: "p = (i, r)" by (cases p)
  show ?case
    by (cases "Response_Validate E mts r") (auto simp: p Cons.IH split: option.splits)
qed

lemma check_responses_shared:
  "shares_status rs p \<Longrightarrow>
   fst (check_responses E rs mts (p # post)) =
     Some (Errorf ''Multiple response definitions with status code %d''
             [AInt (Response_Status (snd p))])"
  by (cases p) (simp add: shares_status_eq)

lemma check_responses_fails:
  "p \<in> set xs \<Longrightarrow> shares_status rs p \<Longrightarrow> fst (check_responses E rs mts xs) \<noteq> None"
proof (induction xs arbitrary: mts)
  case Nil
  then show ?case by simp
next
  case (Cons q xs)
  obtain i r where q: "q = (i, r)" by (cases q)
  show ?case
  proof (cases "shares_status rs q")
    case True
    then show ?thesis using check_responses_shared[of rs q E mts xs] by simp
  next
    case False
    with Cons.prems have "p \<in> set xs" by auto
    with Cons.IH Cons.prems(2) have "\<And>m. fst (check_responses E rs m xs) \<noteq> None" by blast
    with False show ?thesis
      by (cases "Response_Validate E mts r")
         (auto simp: q shares_status_eq split: option.splits)
  qed
qed

lemma check_responses_no_duplicate_error:
  "\<forall>p\<in>set xs. \<not> shares_status rs p \<Longrightarrow>
   fst (check_responses E rs mts xs) \<noteq>
     Some (Errorf ''Multiple response definitions with status code %d'' args)"
proof (induction xs arbitrary: mts)
  case Nil
  then show ?case by simp
next
  case (Cons q xs)
  obtain i r where q: "q = (i, r)" by (cases q)
  from Cons.prems have nq: "\<not> shares_status rs (i, r)" and rest: "\<forall>p\<in>set xs. \<not> shares_status rs p"
    by (auto simp: q)
  show ?case
    using nq Cons.IH[OF rest]
    by (cases "Response_Validate E mts r")
       (auto simp: q shares_status_eq split: option.splits)
qed

lemma ValidateParams_no_duplicate_error:
  "ValidateParams E a \<noteq> Some (Errorf ''Multiple response definitions with status code %d'' args)"
proof -
  have "check_params E n ps \<noteq>
      Some (Errorf ''Multiple response definitions with status code %d'' args)" for n ps
    by (induction ps) (auto split: option.splits if_splits)
  then show ?thesis
    by (auto simp: ValidateParams_def split: option.splits)
qed

lemma check_responses_invalid:
  "\<not> shares_status rs q \<Longrightarrow> fst (Response_Validate E mts (snd q)) = Some e \<Longrightarrow>
   fst (check_responses E rs mts (q # rest)) = Some (invalid_response_error (snd q) e)"
  by (cases q; cases "Response_Validate E mts (snd q)")
     (auto simp: shares_status_eq invalid_response_error_def)

text \<open>
  \<open>Validate\<close> on a media type assigns its defaults or leaves it as it is, and its error
  depends on the media type with its defaults only, as long as \<open>mime.ParseMediaType\<close>
  accepts \<open>plain/text\<close>. So a response passes or fails its own validation in the same way
  before the loop and when the loop reaches it.
\<close>

lemma with_defaults_TypeName: "MT_TypeName (with_defaults m) = MT_TypeName m"
  by (simp add: with_defaults_def Let_def split: option.splits)

lemma with_defaults_Views: "MT_Views (with_defaults m) = MT_Views m"
  by (simp add: with_defaults_def Let_def split: option.splits)

lemma with_defaults_idem: "with_defaults (with_defaults m) = with_defaults m"
  by (cases "Attr_Type (MT_AttributeDefinition m)")
     (simp_all add: with_defaults_def Let_def set_Attr_Type_def)

lemma MediaType_Validate_snd:
  "snd (MediaType_Validate E mts m) = m \<or> snd (MediaType_Validate E mts m) = with_defaults m"
  by (simp add: MediaType_Validate_def with_defaults_def Let_def split: option.splits)

lemma MediaType_Validate_fst:
  assumes "ParseMediaType E ''plain/text'' = None"
  shows "fst (MediaType_Validate E mts m) = validate_defaulted E mts (with_defaults m)"
  using assms
  by (auto simp: MediaType_Validate_def validate_defaulted_def with_defaults_def Let_def
      set_Attr_Type_def split: option.splits)

lemma check_views_views:
  "views_of mts' = views_of mts \<Longrightarrow> check_views mts' ident ob = check_views mts ident ob"
  by (induction mts ident ob rule: check_views.induct) (auto split: option.splits)

lemma validate_defaulted_views:
  "views_of mts' = views_of mts \<Longrightarrow> validate_defaulted E mts' d = validate_defaulted E mts d"
  using check_views_views[of mts' mts]
  by (simp add: validate_defaulted_def split: option.splits)

lemma map_of_map_snd: "map_of (map (\<lambda>p. (fst p, f (snd p))) xs) k = map_option f (map_of xs k)"
  by (induction xs) auto

lemma same_defaults_lookup:
  assumes "same_defaults mts mts'"
  shows "map_option with_defaults (map_of mts' k) = map_option with_defaults (map_of mts k)"
  using assms map_of_map_snd[of with_defaults mts' k] map_of_map_snd[of with_defaults mts k]
  by (simp add: same_defaults_def)

lemma views_of_with_defaults:
  "views_of mts k =
     (case map_option with_defaults (map_of mts k) of
        None \<Rightarrow> [] | Some d \<Rightarrow> map fst (MT_Views d))"
  by (cases "map_of mts k") (simp_all add: views_of_def with_defaults_Views)

lemma same_defaults_views: "same_defaults mts mts' \<Longrightarrow> views_of mts' = views_of mts"
  by (rule ext) (simp add: views_of_with_defaults same_defaults_lookup)

lemma same_defaults_refl: "same_defaults mts mts"
  by (simp add: same_defaults_def)

lemma same_defaults_trans:
  "same_defaults a b \<Longrightarrow> same_defaults b c \<Longrightarrow> same_defaults a c"
  by (simp add: same_defaults_def)

lemma same_defaults_store:
  "map_of mts n = Some m \<Longrightarrow> with_defaults m2 = with_defaults m \<Longrightarrow>
   same_defaults mts (store mts n m2)"
  unfolding same_defaults_def by (induction mts) (auto split: if_splits)

lemma validate_media_type_named_stable:
  assumes P: "ParseMediaType E ''plain/text'' = None" and S: "same_defaults mts mts'"
  shows "fst (validate_media_type_named E mts' n) = fst (validate_media_type_named E mts n)
       \<and> same_defaults mts (snd (validate_media_type_named E mts' n))"
proof (cases "n = []")
  case True
  with S show ?thesis by (simp add: validate_media_type_named_def)
next
  case False
  note L = same_defaults_lookup[OF S, of n]
  show ?thesis
  proof (cases "map_of mts n")
    case None
    with L have "map_of mts' n = None" by simp
    with None False S show ?thesis by (simp add: validate_media_type_named_def)
  next
    case (Some m)
    with L obtain m' where m': "map_of mts' n = Some m'" "with_defaults m' = with_defaults m"
      by (cases "map_of mts' n") auto
    have e: "fst (MediaType_Validate E mts' m') = fst (MediaType_Validate E mts m)"
      by (simp add: MediaType_Validate_fst[OF P] m'(2)
          validate_defaulted_views[OF same_defaults_views[OF S]])
    have "with_defaults (snd (MediaType_Validate E mts' m')) = with_defaults m'"
      using MediaType_Validate_snd[of E mts' m'] by (auto simp: with_defaults_idem)
    then have "same_defaults mts' (store mts' n (snd (MediaType_Validate E mts' m')))"
      by (rule same_defaults_store[OF m'(1)])
    with S have s: "same_defaults mts (store mts' n (snd (MediaType_Validate E mts' m')))"
      by (rule same_defaults_trans)
    from e s Some m'(1) False show ?thesis
      by (simp add: validate_media_type_named_def case_prod_unfold)
  qed
qed

lemma Response_Validate_stable:
  assumes P: "ParseMediaType E ''plain/text'' = None" and S: "same_defaults mts mts'"
  shows "fst (Response_Validate E mts' r) = fst (Response_Validate E mts r)
       \<and> same_defaults mts (snd (Response_Validate E mts' r))"
  using validate_media_type_named_stable[OF P S, of "Response_MediaType r"] S
  by (simp add: Response_Validate_def)

lemma check_responses_prefix:
  assumes P: "ParseMediaType E ''plain/text'' = None"
  shows "same_defaults mts0 mts \<Longrightarrow>
   \<forall>q\<in>set xs. \<not> shares_status rs q \<and> fst (Response_Validate E mts0 (snd q)) = None \<Longrightarrow>
   \<exists>mts'. same_defaults mts0 mts'
      \<and> check_responses E rs mts (xs @ rest) = check_responses E rs mts' rest"
proof (induction xs arbitrary: mts)
  case Nil
  then show ?case by auto
next
  case (Cons q xs)
  obtain i r where q: "q = (i, r)" by (cases q)
  from Cons.prems(2) have ns: "\<not> shares_status rs (i, r)"
    and ok: "fst (Response_Validate E mts0 r) = None"
    and rest: "\<forall>q\<in>set xs. \<not> shares_status rs q \<and> fst (Response_Validate E mts0 (snd q)) = None"
    by (simp_all add: q)
  from Response_Validate_stable[OF P Cons.prems(1), of r] ok
  obtain mts1 where v: "Response_Validate E mts r = (None, mts1)" and s1: "same_defaults mts0 mts1"
    by (cases "Response_Validate E mts r") auto
  from Cons.IH[OF s1 rest] obtain mts' where "same_defaults mts0 mts'"
    "check_responses E rs mts1 (xs @ rest) = check_responses E rs mts' rest" by blast
  with ns v show ?case by (auto simp: q shares_status_eq)
qed

lemma Action_Validate_responses_error:
  "Action_Name a \<noteq> [] \<Longrightarrow> Action_Routes a \<noteq> [] \<Longrightarrow>
   fst (check_responses E (Action_Responses a) mts (Action_Responses a)) = Some err \<Longrightarrow>
   fst (Action_Validate E mts a) = Some err"
  by (cases "check_responses E (Action_Responses a) mts (Action_Responses a)")
     (auto simp: Action_Validate_def)

text \<open>
  Claim C3, as amended. Let the action have a name and a route, and let
  \<open>mime.ParseMediaType\<close> accept \<open>plain/text\<close>. Let the responses visited before the
  response \<open>p\<close> share their status with no response under another name and pass their own
  validation. If \<open>p\<close> shares its status with a response under another name, \<open>Validate\<close>
  returns the duplicate-status error for the status of \<open>p\<close>. If \<open>p\<close> shares its status with
  none and fails its own validation, \<open>Validate\<close> returns the invalid-response error of \<open>p\<close>.
  Whenever some response shares its status with another, \<open>Validate\<close> returns an error. If no
  response shares its status with another, \<open>Validate\<close> does not return a duplicate-status
  error (with or without a name and a route).
\<close>

theorem Action_Validate_duplicate_status:
  "(Action_Name a \<noteq> [] \<and> Action_Routes a \<noteq> [] \<and> ParseMediaType E ''plain/text'' = None
      \<and> Action_Responses a = pre @ p # post
      \<and> (\<forall>x\<in>set pre. \<not> shares_status (Action_Responses a) x
            \<and> fst (Response_Validate E mts (snd x)) = None)
      \<and> shares_status (Action_Responses a) p
    \<longrightarrow> fst (Action_Validate E mts a) =
          Some (Errorf ''Multiple response definitions with status code %d''
                  [AInt (Response_Status (snd p))]))
 \<and> (Action_Name a \<noteq> [] \<and> Action_Routes a \<noteq> [] \<and> ParseMediaType E ''plain/text'' = None
      \<and> Action_Responses a = pre @ p # post
      \<and> (\<forall>x\<in>set pre. \<not> shares_status (Action_Responses a) x
            \<and> fst (Response_Validate E mts (snd x)) = None)
      \<and> \<not> shares_status (Action_Responses a) p
      \<and> fst (Response_Validate E mts (snd p)) = Some e
    \<longrightarrow> fst (Action_Validate E mts a) = Some (invalid_response_error (snd p) e))
 \<and> (Action_Name a \<noteq> [] \<and> Action_Routes a \<noteq> [] \<and> q \<in> set (Action_Responses a)
      \<and> shares_status (Action_Responses a) q
    \<longrightarrow> fst (Action_Validate E mts a) \<noteq> None)
 \<and> ((\<forall>x\<in>set (Action_Responses a). \<not> shares_status (Action_Responses a) x)
    \<longrightarrow> fst (Action_Validate E mts a) \<noteq>
          Some (Errorf ''Multiple response definitions with status code %d'' [AInt s]))"
proof (intro conjI impI)
  assume h: "Action_Name a \<noteq> [] \<and> Action_Routes a \<noteq> [] \<and> ParseMediaType E ''plain/text'' = None
      \<and> Action_Responses a = pre @ p # post
      \<and> (\<forall>x\<in>set pre. \<not> shares_status (Action_Responses a) x
            \<and> fst (Response_Validate E mts (snd x)) = None)
      \<and> shares_status (Action_Responses a) p"
  then have P: "ParseMediaType E ''plain/text'' = None"
    and rs: "Action_Responses a = pre @ p # post"
    and pre: "\<forall>x\<in>set pre. \<not> shares_status (Action_Responses a) x
            \<and> fst (Response_Validate E mts (snd x)) = None"
    and sh: "shares_status (Action_Responses a) p"
    and nm: "Action_Name a \<noteq> []" and rt: "Action_Routes a \<noteq> []" by blast+
  from check_responses_prefix[OF P same_defaults_refl pre, where rest = "p # post"]
  obtain mts' where "check_responses E (Action_Responses a) mts (pre @ p # post)
      = check_responses E (Action_Responses a) mts' (p # post)" by blast
  then have "fst (check_responses E (Action_Responses a) mts (pre @ p # post)) =
      Some (Errorf ''Multiple response definitions with status code %d''
              [AInt (Response_Status (snd p))])"
    using check_responses_shared[OF sh, of E mts' post] by simp
  then have "fst (check_responses E (Action_Responses a) mts (Action_Responses a)) =
      Some (Errorf ''Multiple response definitions with status code %d''
              [AInt (Response_Status (snd p))])"
    using rs by simp
  then show "fst (Action_Validate E mts a) =
          Some (Errorf ''Multiple response definitions with status code %d''
                  [AInt (Response_Status (snd p))])"
    by (rule Action_Validate_responses_error[OF nm rt])
next
  assume h: "Action_Name a \<noteq> [] \<and> Action_Routes a \<noteq> [] \<and> ParseMediaType E ''plain/text'' = None
      \<and> Action_Responses a = pre @ p # post
      \<and> (\<forall>x\<in>set pre. \<not> shares_status (Action_Responses a) x
            \<and> fst (Response_Validate E mts (snd x)) = None)
      \<and> \<not> shares_status (Action_Responses a) p
      \<and> fst (Response_Validate E mts (snd p)) = Some e"
  then have P: "ParseMediaType E ''plain/text'' = None"
    and rs: "Action_Responses a = pre @ p # post"
    and pre: "\<forall>x\<in>set pre. \<not> shares_status (Action_Responses a) x
            \<and> fst (Response_Validate E mts (snd x)) = None"
    and ns: "\<not> shares_status (Action_Responses a) p"
    and bad: "fst (Response_Validate E mts (snd p)) = Some e"
    and nm: "Action_Name a \<noteq> []" and rt: "Action_Routes a \<noteq> []" by blast+
  from check_responses_prefix[OF P same_defaults_refl pre, where rest = "p # post"]
  obtain mts' where sd: "same_defaults mts mts'"
    and eq: "check_responses E (Action_Responses a) mts (pre @ p # post)
      = check_responses E (Action_Responses a) mts' (p # post)" by blast
  have "fst (Response_Validate E mts' (snd p)) = Some e"
    using Response_Validate_stable[OF P sd, of "snd p"] bad by simp
  then have "fst (check_responses E (Action_Responses a) mts' (p # post))
      = Some (invalid_response_error (snd p) e)"
    by (rule check_responses_invalid[OF ns])
  then have "fst (check_responses E (Action_Responses a) mts (Action_Responses a))
      = Some (invalid_response_error (snd p) e)"
    using rs eq by simp
  then show "fst (Action_Validate E mts a) = Some (invalid_response_error (snd p) e)"
    by (rule Action_Validate_responses_error[OF nm rt])
next
  assume h: "Action_Name a \<noteq> [] \<and> Action_Routes a \<noteq> [] \<and> q \<in> set (Action_Responses a)
      \<and> shares_status (Action_Responses a) q"
  then have "fst (check_responses E (Action_Responses a) mts (Action_Responses a)) \<noteq> None"
    using check_responses_fails by blast
  with h show "fst (Action_Validate E mts a) \<noteq> None"
    by (cases "check_responses E (Action_Responses a) mts (Action_Responses a)")
       (auto simp: Action_Validate_def)
next
  assume h: "\<forall>x\<in>set (Action_Responses a). \<not> shares_status (Action_Responses a) x"
  have 1: "fst (check_responses E (Action_Responses a) mts (Action_Responses a)) \<noteq>
     Some (Errorf ''Multiple response definitions with status code %d'' [AInt s])"
    using check_responses_no_duplicate_error[OF h] .
  show "fst (Action_Validate E mts a) \<noteq>
          Some (Errorf ''Multiple response definitions with status code %d'' [AInt s])"
    using 1 ValidateParams_no_duplicate_error[of E a "[AInt s]"]
    by (cases "check_responses E (Action_Responses a) mts (Action_Responses a)")
       (auto simp: Action_Validate_def split: option.splits)
qed

theorem Action_Validate_duplicate_status_witness:
  "fst (Action_Validate sample_env [(''Bottle'', sample_media_type)] duplicate_action) =
     Some (Errorf ''Multiple response definitions with status code %d'' [AInt 200])
 \<and> fst (Action_Validate sample_env [(''Bottle'', sample_media_type)] unset_status_action) =
     Some (Errorf ''invalid response definition: %s''
             [AErr (Errorf ''response status not defined'' [])])"
proof -
  let ?nf = "(''NotFound'', (mk_response ''NotFound'' 404)\<lparr>Response_MediaType := ''Bottle''\<rparr>)"
  let ?ok = "(''OK'', mk_response ''OK'' 200)"
  let ?fine = "(''Fine'', mk_response ''Fine'' 200)"
  let ?mts = "[(''Bottle'', sample_media_type)]"
  have 1: "fst (Action_Validate sample_env ?mts duplicate_action) =
     Some (Errorf ''Multiple response definitions with status code %d'' [AInt 200])"
    using Action_Validate_duplicate_status[where a = duplicate_action and E = sample_env
        and mts = ?mts and pre = "[?nf]" and p = ?ok and post = "[?fine]"]
    by (simp add: duplicate_action_def shares_status_def mk_response_def sample_env_def
        Response_Validate_def validate_media_type_named_def MediaType_Validate_def
        sample_media_type_def set_Attr_Type_def)
  have 2: "fst (Action_Validate sample_env ?mts unset_status_action) =
     Some (Errorf ''invalid response definition: %s''
             [AErr (Errorf ''response status not defined'' [])])"
    using Action_Validate_duplicate_status[where a = unset_status_action and E = sample_env
        and mts = ?mts and pre = "[]" and p = "(''NotFound'', mk_response ''NotFound'' 0)"
        and post = "[?ok, ?fine]" and e = "Errorf ''response status not defined'' []"]
    by (simp add: unset_status_action_def duplicate_action_def shares_status_def
        mk_response_def sample_env_def Response_Validate_def invalid_response_error_def)
  from 1 2 show ?thesis by simp
qed

text \<open>
  The claim as stated fails on an action with no name: the check of the name comes first
  and its error is returned, although two responses have the status 200.
\<close>

theorem Action_Validate_unnamed_counterexample:
  "shares_status (Action_Responses unnamed_action) (''OK'', mk_response ''OK'' 200)
 \<and> fst (Action_Validate sample_env [] unnamed_action) =
     Some (Errorf ''Action name cannot be empty'' [])"
  by (simp add: unnamed_action_def shares_status_def mk_response_def Action_Validate_def)


subsection \<open>\<open>finalizeResource\<close>: the implicit parameters\<close>

lemma new_params_fst: "fst ` set (new_params keys wcs) = set wcs - set keys"
  by (induction wcs arbitrary: keys) auto

lemma new_params_snd:
  "q \<in> set (new_params keys wcs) \<Longrightarrow> snd q = attribute_of_type (PrimitiveD StringKind)"
  by (induction wcs arbitrary: keys) (auto split: if_splits)

lemma new_params_distinct: "distinct (map fst (new_params keys wcs))"
proof (induction wcs arbitrary: keys)
  case Nil
  then show ?case by simp
next
  case (Cons wc wcs)
  have "wc \<notin> fst ` set (new_params (keys @ [wc]) wcs)"
    by (simp add: new_params_fst)
  with Cons show ?case by simp
qed

lemma new_params_step:
  "new_params keys (wc # wcs) =
     new_params keys [wc] @ new_params (keys @ map fst (new_params keys [wc])) wcs"
  by simp

lemma object_of_Some: "object_of t = Some ms \<longleftrightarrow> t = Some (ObjectD ms)"
  by (cases t rule: object_of.cases) auto

lemma add_wildcard_params:
  assumes "params_ok a"
  shows "\<exists>a'. add_wildcard E wc a = Some a' \<and> params_ok a'
     \<and> params_object a' = params_object a @ new_params (map fst (params_object a)) [wc]
     \<and> Action_Routes a' = Action_Routes a \<and> Action_Responses a' = Action_Responses a"
proof (cases "Action_Params a")
  case None
  then show ?thesis
    by (simp add: add_wildcard_def params_ok_def params_object_def attribute_of_type_def)
next
  case (Some ps)
  with assms obtain ms where t: "Attr_Type ps = Some (ObjectD ms)"
    by (auto simp: params_ok_def object_of_Some)
  with Some show ?thesis
    by (auto simp: add_wildcard_def params_ok_def params_object_def set_Attr_Type_def)
qed

lemma add_wildcards_params:
  "params_ok a \<Longrightarrow>
   \<exists>a'. add_wildcards E wcs a = Some a' \<and> params_ok a'
     \<and> params_object a' = params_object a @ new_params (map fst (params_object a)) wcs
     \<and> Action_Routes a' = Action_Routes a \<and> Action_Responses a' = Action_Responses a"
proof (induction wcs arbitrary: a)
  case Nil
  then show ?case by simp
next
  case (Cons wc wcs)
  from add_wildcard_params[OF Cons.prems, of E wc]
  obtain a1 where a1: "add_wildcard E wc a = Some a1" "params_ok a1"
    "params_object a1 = params_object a @ new_params (map fst (params_object a)) [wc]"
    "Action_Routes a1 = Action_Routes a" "Action_Responses a1 = Action_Responses a"
    by blast
  from Cons.IH[OF a1(2)]
  obtain a' where a': "add_wildcards E wcs a1 = Some a'" "params_ok a'"
    "params_object a' = params_object a1 @ new_params (map fst (params_object a1)) wcs"
    "Action_Routes a' = Action_Routes a1" "Action_Responses a' = Action_Responses a1"
    by blast
  have "params_object a' =
      params_object a @ new_params (map fst (params_object a)) (wc # wcs)"
    unfolding a'(3) a1(3) new_params_step[of "map fst (params_object a)" wc wcs] by simp
  with a1 a' show ?case by simp
qed

lemma finalizeAction_wildcards:
  assumes "params_ok a"
  shows "\<exists>a'. finalizeAction E D r a = Some a'
            \<and> wildcards_added E (Resource_Name r) a a'"
proof -
  let ?a0 = "a\<lparr>Action_Responses := map (merge_response D r) (Action_Responses a)\<rparr>"
  let ?wcs = "route_wildcards E (Resource_Name r) a"
  have ok: "params_ok ?a0" using assms by (simp add: params_ok_def)
  have po: "params_object ?a0 = params_object a" by (simp add: params_object_def)
  have rw: "route_wildcards E (Resource_Name r) ?a0 = ?wcs" by (simp add: route_wildcards_def)
  from add_wildcards_params[OF ok, of E ?wcs]
  obtain a' where a': "add_wildcards E ?wcs ?a0 = Some a'"
    "params_object a' = params_object a @ new_params (map fst (params_object a)) ?wcs"
    by (auto simp: po)
  let ?new = "new_params (map fst (params_object a)) ?wcs"
  have 1: "distinct (map fst ?new)" by (rule new_params_distinct)
  have all: "set ?wcs = (\<Union>x\<in>set (Action_Routes a). set (Wildcards E (Resource_Name r) x))"
    by (simp add: route_wildcards_def)
  have 20: "\<forall>q\<in>set ?new. snd q = attribute_of_type (PrimitiveD StringKind)
              \<and> fst q \<in> set ?wcs \<and> fst q \<notin> fst ` set (params_object a)"
    using new_params_fst[of "map fst (params_object a)" ?wcs] new_params_snd
    by (metis DiffD1 DiffD2 image_eqI list.set_map)
  have 2: "\<forall>q\<in>set ?new. snd q = attribute_of_type (PrimitiveD StringKind)
              \<and> (\<exists>x\<in>set (Action_Routes a). fst q \<in> set (Wildcards E (Resource_Name r) x))
              \<and> fst q \<notin> fst ` set (params_object a)"
    using 20 unfolding all by blast
  have 30: "\<forall>wc\<in>set ?wcs. wc \<in> fst ` set (params_object a')"
    using new_params_fst[of "map fst (params_object a)" ?wcs] by (auto simp: a'(2) image_Un)
  have 3: "\<forall>x\<in>set (Action_Routes a). \<forall>wc\<in>set (Wildcards E (Resource_Name r) x).
              wc \<in> fst ` set (params_object a')"
    using 30 unfolding all by blast
  have "wildcards_added E (Resource_Name r) a a'"
    unfolding wildcards_added_def using a'(2) 1 2 3 by blast
  with a'(1) show ?thesis by (simp add: finalizeAction_def rw)
qed

lemma IterateActions_wildcards:
  "\<forall>p\<in>set acts. params_ok (snd p) \<Longrightarrow>
   \<exists>acts'. IterateActions (finalizeAction E D r) acts = Some acts'
     \<and> list_all2 (\<lambda>p p'. fst p' = fst p \<and> wildcards_added E (Resource_Name r) (snd p) (snd p'))
          acts acts'"
proof (induction acts)
  case Nil
  then show ?case by simp
next
  case (Cons p acts)
  obtain k a where p: "p = (k, a)" by (cases p)
  from Cons.prems have "params_ok a" by (simp add: p)
  from finalizeAction_wildcards[OF this, of E D r]
  obtain a' where a': "finalizeAction E D r a = Some a'"
    "wildcards_added E (Resource_Name r) a a'" by blast
  from Cons obtain acts' where acts': "IterateActions (finalizeAction E D r) acts = Some acts'"
    "list_all2 (\<lambda>p p'. fst p' = fst p \<and> wildcards_added E (Resource_Name r) (snd p) (snd p'))
          acts acts'" by auto
  from a' acts' show ?case by (simp add: p)
qed

lemma ValidateParams_params_ok: "ValidateParams E a = None \<Longrightarrow> params_ok a"
  by (auto simp: ValidateParams_def params_ok_def split: option.splits)

lemma sample_finalize:
  "finalizeResource sample_env sample_design sample_resource =
     Some (sample_resource\<lparr>Resource_Actions := [(''show'', finalized_sample_action)]\<rparr>)"
  by (simp add: finalizeResource_def sample_resource_def finalizeAction_def sample_action_def
      route_wildcards_def sample_env_def add_wildcard_def attribute_of_type_def
      set_Attr_Type_def merge_response_def merge_from_def sample_design_def Merge_def
      mk_response_def finalized_sample_action_def)

text \<open>
  Claim C5. Let every action of the resource have no parameters or parameters of an object
  type, as \<open>ValidateParams\<close> demands. Then \<open>finalizeResource\<close> returns, and for every
  action: the declared parameters are left as they are; for every wildcard in the full path
  of a route that has no parameter of its name, one parameter of that name is added, with the
  type \<open>String\<close> and no validation; and afterwards every wildcard of every route has a
  parameter.
\<close>

theorem finalizeResource_wildcards:
  assumes "\<forall>p\<in>set (Resource_Actions r). params_ok (snd p)"
  shows "\<exists>r'. finalizeResource E D r = Some r'
     \<and> list_all2 (\<lambda>p p'. fst p' = fst p \<and> wildcards_added E (Resource_Name r) (snd p) (snd p'))
          (Resource_Actions r) (Resource_Actions r')"
  using IterateActions_wildcards[OF assms, of E D r]
  by (auto simp: finalizeResource_def)

theorem finalizeResource_wildcards_witness:
  "params_ok sample_action
 \<and> finalizeResource sample_env sample_design sample_resource =
     Some (sample_resource\<lparr>Resource_Actions := [(''show'', finalized_sample_action)]\<rparr>)
 \<and> map fst (params_object finalized_sample_action) = [''id'', ''accountID'', ''bottleID'']"
  using finalizeResource_wildcards[of sample_resource sample_env sample_design] sample_finalize
  by (simp add: params_ok_def sample_action_def finalized_sample_action_def
      params_object_def attribute_of_type_def)

subsection \<open>The finalize functions run twice\<close>

lemma Merge_absorb: "Merge (Merge r x) x = Merge r x"
  by (cases r) (simp add: Merge_def)

lemma Merge_keep: "Merge r x = r \<Longrightarrow> Merge (Merge r y) x = Merge r y"
  by (cases r; cases x; cases y) (auto simp: Merge_def split: if_splits)

lemma merge_from_absorb: "merge_from m n (merge_from m n r) = merge_from m n r"
  by (simp add: merge_from_def Merge_absorb split: option.splits)

lemma merge_from_keep:
  "merge_from m n r = r \<Longrightarrow> merge_from m n (merge_from m2 n r) = merge_from m2 n r"
  by (auto simp: merge_from_def Merge_keep split: option.splits)

lemma merge_response_idem:
  "merge_response D parent (merge_response D parent p) = merge_response D parent p"
proof -
  let ?P = "Resource_Responses parent" and ?A = "API_Responses D"
    and ?R = "API_DefaultResponses D" and ?n = "fst p"
  let ?r1 = "merge_from ?P ?n (snd p)"
  let ?r2 = "merge_from ?A ?n ?r1"
  let ?r3 = "merge_from ?R ?n ?r2"
  have p3: "merge_from ?P ?n ?r3 = ?r3"
    by (intro merge_from_keep merge_from_absorb)
  have a3: "merge_from ?A ?n ?r3 = ?r3"
    by (intro merge_from_keep merge_from_absorb)
  have r3: "merge_from ?R ?n ?r3 = ?r3"
    by (rule merge_from_absorb)
  show ?thesis
    by (simp add: merge_response_def p3 a3 r3)
qed

lemma add_wildcard_frame:
  "add_wildcard E wc a = Some a' \<Longrightarrow>
   Action_Routes a' = Action_Routes a \<and> Action_Responses a' = Action_Responses a"
  by (auto simp: add_wildcard_def split: option.splits if_splits DataTypeD.splits)

lemma add_wildcards_frame:
  "add_wildcards E wcs a = Some a' \<Longrightarrow>
   Action_Routes a' = Action_Routes a \<and> Action_Responses a' = Action_Responses a"
proof (induction wcs arbitrary: a)
  case Nil
  then show ?case by simp
next
  case (Cons wc wcs)
  then show ?case
    by (cases "add_wildcard E wc a") (auto dest: add_wildcard_frame)
qed

lemma add_wildcard_fixed_iff:
  "add_wildcard E wc a = Some a \<longleftrightarrow>
     (\<exists>ps t ob. Action_Params a = Some ps \<and> Attr_Type ps = Some t \<and> ToObject E t = Some ob
        \<and> (wc \<in> set (map fst ob) \<or> (\<forall>ms. t \<noteq> ObjectD ms)))"
proof (cases "Action_Params a")
  case None
  have "a\<lparr>Action_Params := Some x\<rparr> \<noteq> a" for x
    using None by (metis ActionDefinition.select_convs(4) ActionDefinition.surjective
        ActionDefinition.update_convs(4) option.distinct(1))
  with None show ?thesis by (simp add: add_wildcard_def)
next
  case (Some ps)
  show ?thesis
  proof (cases "Attr_Type ps")
    case None
    with Some show ?thesis by (simp add: add_wildcard_def)
  next
    case t: (Some t)
    show ?thesis
    proof (cases "ToObject E t")
      case None
      with Some t show ?thesis by (simp add: add_wildcard_def)
    next
      case ob: (Some ob)
      show ?thesis
      proof (cases "wc \<in> set (map fst ob)")
        case True
        with Some t ob show ?thesis by (simp add: add_wildcard_def)
      next
        case False
        show ?thesis
        proof (cases "\<exists>ms. t = ObjectD ms")
          case True
          then obtain ms where ms: "t = ObjectD ms" by blast
          with ob have obms: "ob = ms" by simp
          let ?ps' = "set_Attr_Type (Some (ObjectD (ms @ [(wc, attribute_of_type
                                    (PrimitiveD StringKind))]))) ps"
          have "Attr_Type ?ps' \<noteq> Attr_Type ps"
            by (simp add: set_Attr_Type_def t ms)
          then have "?ps' \<noteq> ps" by auto
          then have "a\<lparr>Action_Params := Some ?ps'\<rparr> \<noteq> a"
            using Some by (metis ActionDefinition.select_convs(4) ActionDefinition.surjective
              ActionDefinition.update_convs(4) option.inject)
          with Some t ob False ms show ?thesis by (simp add: add_wildcard_def)
        next
          case nob: False
          with Some t ob False show ?thesis
            by (cases t) (auto simp: add_wildcard_def)
        qed
      qed
    qed
  qed
qed


lemma add_wildcard_keeps:
  assumes f: "add_wildcard E w a = Some a" and h: "add_wildcard E wc a = Some a'"
  shows "add_wildcard E w a' = Some a'"
proof -
  from f obtain ps t ob where ps: "Action_Params a = Some ps" and t: "Attr_Type ps = Some t"
    and ob: "ToObject E t = Some ob"
    and w: "w \<in> set (map fst ob) \<or> (\<forall>ms. t \<noteq> ObjectD ms)"
    unfolding add_wildcard_fixed_iff by blast
  show ?thesis
  proof (cases "wc \<in> set (map fst ob)")
    case True
    with h ps t ob have "a' = a" by (simp add: add_wildcard_def)
    with f show ?thesis by simp
  next
    case False
    show ?thesis
    proof (cases "\<exists>ms. t = ObjectD ms")
      case True
      then obtain ms where ms: "t = ObjectD ms" by blast
      with ob have obms: "ob = ms" by simp
      let ?ms' = "ms @ [(wc, attribute_of_type (PrimitiveD StringKind))]"
      from h ps t ob False ms
      have a': "a' = a\<lparr>Action_Params := Some (set_Attr_Type (Some (ObjectD ?ms')) ps)\<rparr>"
        by (simp add: add_wildcard_def)
      have "w \<in> set (map fst ?ms')" using w ms obms by auto
      then have "\<exists>ps t ob. Action_Params a' = Some ps \<and> Attr_Type ps = Some t
          \<and> ToObject E t = Some ob
          \<and> (w \<in> set (map fst ob) \<or> (\<forall>ms. t \<noteq> ObjectD ms))"
        by (simp add: a' set_Attr_Type_def)
      then show ?thesis unfolding add_wildcard_fixed_iff .
    next
      case nob: False
      with h ps t ob False have "a' = a"
        by (cases t) (auto simp: add_wildcard_def)
      with f show ?thesis by simp
    qed
  qed
qed

lemma add_wildcard_stable:
  assumes h: "add_wildcard E wc a = Some a'"
  shows "add_wildcard E wc a' = Some a'"
proof (cases "Action_Params a")
  case None
  with h have a': "a' = a\<lparr>Action_Params := Some (attribute_of_type
                  (ObjectD [(wc, attribute_of_type (PrimitiveD StringKind))]))\<rparr>"
    by (simp add: add_wildcard_def)
  have "\<exists>ps t ob. Action_Params a' = Some ps \<and> Attr_Type ps = Some t
          \<and> ToObject E t = Some ob
          \<and> (wc \<in> set (map fst ob) \<or> (\<forall>ms. t \<noteq> ObjectD ms))"
    by (simp add: a' attribute_of_type_def)
  then show ?thesis unfolding add_wildcard_fixed_iff .
next
  case (Some ps)
  with h obtain t ob where t: "Attr_Type ps = Some t" and ob: "ToObject E t = Some ob"
    by (auto simp: add_wildcard_def split: option.splits)
  show ?thesis
  proof (cases "wc \<in> set (map fst ob)")
    case True
    with h Some t ob have "a' = a" by (simp add: add_wildcard_def)
    with h show ?thesis by simp
  next
    case False
    show ?thesis
    proof (cases "\<exists>ms. t = ObjectD ms")
      case True
      then obtain ms where ms: "t = ObjectD ms" by blast
      let ?ms' = "ms @ [(wc, attribute_of_type (PrimitiveD StringKind))]"
      from h Some t ob False ms
      have a': "a' = a\<lparr>Action_Params := Some (set_Attr_Type (Some (ObjectD ?ms')) ps)\<rparr>"
        by (simp add: add_wildcard_def)
      have "\<exists>ps t ob. Action_Params a' = Some ps \<and> Attr_Type ps = Some t
          \<and> ToObject E t = Some ob
          \<and> (wc \<in> set (map fst ob) \<or> (\<forall>ms. t \<noteq> ObjectD ms))"
        by (simp add: a' set_Attr_Type_def)
      then show ?thesis unfolding add_wildcard_fixed_iff .
    next
      case nob: False
      with h Some t ob False have "a' = a"
        by (cases t) (auto simp: add_wildcard_def)
      with h show ?thesis by simp
    qed
  qed
qed

lemma add_wildcards_keeps:
  "add_wildcard E w a = Some a \<Longrightarrow> add_wildcards E wcs a = Some a' \<Longrightarrow>
   add_wildcard E w a' = Some a'"
proof (induction wcs arbitrary: a)
  case Nil
  then show ?case by simp
next
  case (Cons wc wcs)
  from Cons.prems(2) obtain a1 where a1: "add_wildcard E wc a = Some a1"
    "add_wildcards E wcs a1 = Some a'" by (auto split: option.splits)
  from add_wildcard_keeps[OF Cons.prems(1) a1(1)] Cons.IH a1(2) show ?case by blast
qed

lemma add_wildcards_stable:
  "add_wildcards E wcs a = Some a' \<Longrightarrow> \<forall>wc\<in>set wcs. add_wildcard E wc a' = Some a'"
proof (induction wcs arbitrary: a)
  case Nil
  then show ?case by simp
next
  case (Cons wc wcs)
  from Cons.prems obtain a1 where a1: "add_wildcard E wc a = Some a1"
    "add_wildcards E wcs a1 = Some a'" by (auto split: option.splits)
  have "add_wildcard E wc a' = Some a'"
    using add_wildcards_keeps[OF add_wildcard_stable[OF a1(1)] a1(2)] .
  with Cons.IH[OF a1(2)] show ?case by simp
qed

lemma add_wildcards_fixed:
  "\<forall>wc\<in>set wcs. add_wildcard E wc a = Some a \<Longrightarrow> add_wildcards E wcs a = Some a"
  by (induction wcs) auto

lemma merge_response_parent:
  "Resource_Responses r2 = Resource_Responses r \<Longrightarrow> merge_response D r2 = merge_response D r"
  by (auto simp: merge_response_def)

lemma finalizeAction_idem:
  assumes "finalizeAction E D r a = Some a'"
    and "Resource_Name r2 = Resource_Name r" and "Resource_Responses r2 = Resource_Responses r"
  shows "finalizeAction E D r2 a' = Some a'"
proof -
  let ?a0 = "a\<lparr>Action_Responses := map (merge_response D r) (Action_Responses a)\<rparr>"
  let ?wcs = "route_wildcards E (Resource_Name r) a"
  have run: "add_wildcards E ?wcs ?a0 = Some a'"
    using assms(1) by (simp add: finalizeAction_def route_wildcards_def)
  from add_wildcards_frame[OF run]
  have fr: "Action_Routes a' = Action_Routes a"
    "Action_Responses a' = map (merge_response D r) (Action_Responses a)" by simp_all
  have resp: "map (merge_response D r2) (Action_Responses a') = Action_Responses a'"
    by (simp add: fr merge_response_parent[OF assms(3)] merge_response_idem)
  have wcs: "route_wildcards E (Resource_Name r2) a' = ?wcs"
    by (simp add: route_wildcards_def fr assms(2))
  have "add_wildcards E ?wcs a' = Some a'"
    using add_wildcards_fixed add_wildcards_stable[OF run] by blast
  then show ?thesis
    by (simp add: finalizeAction_def resp wcs)
qed

lemma IterateActions_idem:
  assumes "Resource_Name r2 = Resource_Name r" and "Resource_Responses r2 = Resource_Responses r"
  shows "IterateActions (finalizeAction E D r) acts = Some acts' \<Longrightarrow>
   IterateActions (finalizeAction E D r2) acts' = Some acts'"
proof (induction acts arbitrary: acts')
  case Nil
  then show ?case by simp
next
  case (Cons p acts)
  obtain k a where p: "p = (k, a)" by (cases p)
  from Cons.prems obtain a' rest where s: "finalizeAction E D r a = Some a'"
    "IterateActions (finalizeAction E D r) acts = Some rest" "acts' = (k, a') # rest"
    by (auto simp: p split: option.splits)
  from finalizeAction_idem[OF s(1) assms] Cons.IH[OF s(2)] s(3) show ?case by simp
qed

lemma finalizeResource_idem:
  "finalizeResource E D r = Some r' \<Longrightarrow> finalizeResource E D r' = Some r'"
proof -
  assume h: "finalizeResource E D r = Some r'"
  then obtain acts where a: "IterateActions (finalizeAction E D r) (Resource_Actions r) = Some acts"
    "r' = r\<lparr>Resource_Actions := acts\<rparr>"
    by (auto simp: finalizeResource_def split: option.splits)
  have "IterateActions (finalizeAction E D r') acts = Some acts"
    using IterateActions_idem[OF _ _ a(1), of r'] by (simp add: a(2))
  then show ?thesis by (simp add: finalizeResource_def a(2))
qed


lemma set_Attr_Type_same: "set_Attr_Type (Attr_Type a) a = a"
  by (cases a) (simp add: set_Attr_Type_def)

lemma filter_own_keys: "filter (\<lambda>(n, att). n \<notin> fst ` set own) own = []"
  by (force simp: filter_empty_conv)

lemma Inherit_self: "Inherit a a = a"
proof (cases "object_of (Attr_Type a)")
  case None
  then show ?thesis by (simp add: Inherit_def)
next
  case (Some own)
  then have t: "Attr_Type a = Some (ObjectD own)"
    by (cases "Attr_Type a" rule: object_of.cases) auto
  show ?thesis
    using set_Attr_Type_same[of a] by (simp add: Inherit_def Some filter_own_keys t)
qed

lemma finalizeType_id: "finalizeType ut = ut"
  by (simp add: finalizeType_def Inherit_self)

lemma finalizeMediaType_id: "finalizeMediaType mt = mt"
  by (simp add: finalizeMediaType_def Inherit_self)

lemma merge_response_design:
  "API_Responses D2 = API_Responses D \<Longrightarrow> API_DefaultResponses D2 = API_DefaultResponses D \<Longrightarrow>
   merge_response D2 = merge_response D"
  by (simp add: merge_response_def fun_eq_iff)

lemma finalizeAction_design:
  assumes "API_Responses D2 = API_Responses D"
    and "API_DefaultResponses D2 = API_DefaultResponses D"
  shows "finalizeAction E D2 r a = finalizeAction E D r a"
  unfolding finalizeAction_def merge_response_design[OF assms] by (rule refl)

lemma finalizeResource_design:
  assumes "API_Responses D2 = API_Responses D"
    and "API_DefaultResponses D2 = API_DefaultResponses D"
  shows "finalizeResource E D2 r = finalizeResource E D r"
proof -
  have "finalizeAction E D2 r = finalizeAction E D r"
    by (rule ext) (rule finalizeAction_design[OF assms])
  then show ?thesis unfolding finalizeResource_def by simp
qed

lemma finalize_resources_idem:
  "finalize_resources E D rs = Some rs' \<Longrightarrow> finalize_resources E D rs' = Some rs'"
proof (induction rs arbitrary: rs')
  case Nil
  then show ?case by simp
next
  case (Cons p rs)
  obtain k r where p: "p = (k, r)" by (cases p)
  from Cons.prems obtain r' rest where s: "finalizeResource E D r = Some r'"
    "finalize_resources E D rs = Some rest" "rs' = (k, r') # rest"
    by (auto simp: p split: option.splits)
  from finalizeResource_idem[OF s(1)] Cons.IH[OF s(2)] s(3) show ?case by simp
qed

lemma finalize_resources_design:
  "API_Responses D2 = API_Responses D \<Longrightarrow> API_DefaultResponses D2 = API_DefaultResponses D \<Longrightarrow>
   finalize_resources E D2 rs = finalize_resources E D rs"
  by (induction rs) (auto simp: finalizeResource_design[of D2 D E] split: option.splits)

lemma finalize_resources_keys:
  "finalize_resources E D rs = Some rs' \<Longrightarrow> map fst rs' = map fst rs"
  by (induction rs arbitrary: rs') (auto split: option.splits)

lemma map_finalizeType: "map (\<lambda>p. (fst p, finalizeType (snd p))) ts = ts"
  by (induction ts) (auto simp: finalizeType_id)

lemma map_finalizeMediaType: "map (\<lambda>p. (fst p, finalizeMediaType (snd p))) ms = ms"
  by (induction ms) (auto simp: finalizeMediaType_id)

lemma finalize_pass_eq:
  "finalize_pass E D =
     (case finalize_resources E D (API_Resources D) of
        None \<Rightarrow> None
      | Some rs \<Rightarrow>
          Some (D\<lparr>API_Resources := rs\<rparr>,
                map (\<lambda>p. FinalizeType (fst p)) (API_Types D)
                @ map (\<lambda>p. FinalizeMediaType (fst p)) (API_MediaTypes D)
                @ map (\<lambda>p. FinalizeResource (fst p)) (API_Resources D)))"
  by (simp add: finalize_pass_def map_finalizeType map_finalizeMediaType)

lemma finalize_pass_idem:
  assumes "finalize_pass E D = Some (D', evs)"
  shows "finalize_pass E D' = Some (D', evs)"
proof -
  from assms obtain rs where rs: "finalize_resources E D (API_Resources D) = Some rs"
    and D': "D' = D\<lparr>API_Resources := rs\<rparr>"
    and evs: "evs = map (\<lambda>p. FinalizeType (fst p)) (API_Types D)
                   @ map (\<lambda>p. FinalizeMediaType (fst p)) (API_MediaTypes D)
                   @ map (\<lambda>p. FinalizeResource (fst p)) (API_Resources D)"
    unfolding finalize_pass_eq by (cases "finalize_resources E D (API_Resources D)") auto
  have des: "finalize_resources E D' rs = finalize_resources E D rs"
    by (rule finalize_resources_design) (simp_all add: D')
  have res: "API_Resources D' = rs" by (simp add: D')
  have 1: "finalize_resources E D' (API_Resources D') = Some rs"
    unfolding res des by (rule finalize_resources_idem[OF rs])
  have "map FinalizeResource (map fst rs) = map FinalizeResource (map fst (API_Resources D))"
    by (simp only: finalize_resources_keys[OF rs])
  then have 2: "map (\<lambda>p. FinalizeResource (fst p)) rs
      = map (\<lambda>p. FinalizeResource (fst p)) (API_Resources D)"
    by (simp add: comp_def)
  have 3: "API_Types D' = API_Types D" "API_MediaTypes D' = API_MediaTypes D"
    "API_Resources D' = rs" "D'\<lparr>API_Resources := rs\<rparr> = D'"
    by (simp_all add: D')
  show ?thesis
    unfolding finalize_pass_eq[of E D'] 1 by (simp add: 2 3 evs)
qed

text \<open>
  Claim C6. \<open>finalizeType\<close> and \<open>finalizeMediaType\<close> applied to their own result change
  nothing; when \<open>finalizeResource\<close> has returned a resource, it returns the same resource
  when run on it again; and when the whole finalize pass has returned a design, it returns
  the same design when run on it again. \<open>Inherit\<close> and \<open>Merge\<close> are as the spec describes
  them.
\<close>

theorem Finalize_idempotent:
  "finalizeType (finalizeType ut) = finalizeType ut
 \<and> finalizeMediaType (finalizeMediaType mt) = finalizeMediaType mt
 \<and> (finalizeResource E D r = Some r' \<longrightarrow> finalizeResource E D r' = Some r')
 \<and> (finalize_pass E D0 = Some (D1, evs) \<longrightarrow> finalize_pass E D1 = Some (D1, evs))"
  using finalizeResource_idem[of E D r r'] finalize_pass_idem[of E D0 D1 evs]
  by (simp add: finalizeType_id finalizeMediaType_id)


theorem Finalize_idempotent_witness:
  "finalizeResource sample_env sample_design sample_resource =
     Some (sample_resource\<lparr>Resource_Actions := [(''show'', finalized_sample_action)]\<rparr>)
 \<and> finalizeResource sample_env sample_design
       (sample_resource\<lparr>Resource_Actions := [(''show'', finalized_sample_action)]\<rparr>) =
     Some (sample_resource\<lparr>Resource_Actions := [(''show'', finalized_sample_action)]\<rparr>)"
  using sample_finalize
    Finalize_idempotent[where E = sample_env and D = sample_design and r = sample_resource
      and r' = "sample_resource\<lparr>Resource_Actions := [(''show'', finalized_sample_action)]\<rparr>"]
  by simp

subsection \<open>\<open>RunDSL\<close>: validation before the finalize pass\<close>

text \<open>
  Claim C9. When \<open>RunDSL\<close> returns an error, it has called no finalize function. When
  \<open>Design.Validate\<close> returns an error on the design that the bodies have built, \<open>RunDSL\<close>
  returns that error and has called no finalize function; when it returns none and DSL
  errors were recorded, \<open>RunDSL\<close> returns those and has called no finalize function. When
  \<open>RunDSL\<close> has called a finalize function, \<open>Design.Validate\<close> had accepted the design and
  no DSL error was recorded, and the finalize pass ran on the design as \<open>Validate\<close> left it.
\<close>

theorem RunDSL_validate_before_finalize:
  "(RunDSL E B w = Returned (Some e) w' evs \<longrightarrow> evs = [])
 \<and> (Design w \<noteq> None \<and> run_bodies B (w\<lparr>Errors := None\<rparr>) = Some w1 \<and> Design w1 = Some D1
      \<and> API_Validate E D1 = (Some err, D2)
    \<longrightarrow> RunDSL E B w = Returned (Some (ValidationFailed err)) (w1\<lparr>Design := Some D2\<rparr>) [])
 \<and> (Design w \<noteq> None \<and> run_bodies B (w\<lparr>Errors := None\<rparr>) = Some w1 \<and> Design w1 = Some D1
      \<and> API_Validate E D1 = (None, D2) \<and> Errors w1 = Some es
    \<longrightarrow> RunDSL E B w = Returned (Some (DSLErrors es)) (w1\<lparr>Design := Some D2\<rparr>) [])
 \<and> (RunDSL E B w = Returned r w' evs \<and> evs \<noteq> []
    \<longrightarrow> (\<exists>w1 D1 D2 D3. run_bodies B (w\<lparr>Errors := None\<rparr>) = Some w1 \<and> Design w1 = Some D1
           \<and> API_Validate E D1 = (None, D2) \<and> Errors w1 = None
           \<and> finalize_pass E D2 = Some (D3, evs) \<and> w' = w1\<lparr>Design := Some D3\<rparr>))"
  by (auto simp: RunDSL_def split: option.splits prod.splits if_splits)



lemma invalid_design_bodies:
  "run_bodies (\<lambda>i. report ''invalid use of Routing'') (invalid_world\<lparr>Errors := None\<rparr>)
     = Some reported_world"
  by (simp add: run_bodies_def invalid_world_def invalid_design_def sample_design_def
      executeDSL_def type_entry_def media_type_entry_def resource_entry_def
      sample_resource_def sample_media_type_def report_def append_slice_def len_def
      reported_world_def)

lemma invalid_design_validate:
  "API_Validate E invalid_design =
     (Some (Errorf ''Resource %s: %s'' [AStr ''bottle'',
        AErr (Errorf ''Action %s: %s'' [AStr [],
          AErr (Errorf ''Action name cannot be empty'' [])])]), invalid_design)"
  by (simp add: API_Validate_def invalid_design_def sample_design_def sample_resource_def
      Resource_Validate_def Action_Validate_def unnamed_action_def)

theorem RunDSL_validate_before_finalize_witness:
  "RunDSL sample_env (\<lambda>i. report ''invalid use of Routing'') invalid_world =
   Returned (Some (ValidationFailed (Errorf ''Resource %s: %s'' [AStr ''bottle'',
       AErr (Errorf ''Action %s: %s'' [AStr [],
         AErr (Errorf ''Action name cannot be empty'' [])])])))
     reported_world []"
proof -
  have d: "Design invalid_world = Some invalid_design"
    "Design reported_world = Some invalid_design"
    "reported_world\<lparr>Design := Some invalid_design\<rparr> = reported_world"
    by (simp_all add: invalid_world_def reported_world_def)
  show ?thesis
    using RunDSL_validate_before_finalize[where E = sample_env
        and B = "\<lambda>i. report ''invalid use of Routing''" and w = invalid_world
        and ?w1.0 = reported_world and ?D1.0 = invalid_design and ?D2.0 = invalid_design
        and err = "Errorf ''Resource %s: %s'' [AStr ''bottle'',
          AErr (Errorf ''Action %s: %s'' [AStr [],
            AErr (Errorf ''Action name cannot be empty'' [])])]"]
      invalid_design_bodies invalid_design_validate[of sample_env]
    by (simp add: d)
qed


end
